theory Spec2Isabelle
  imports Complex_Main
begin

text \<open>
  A model of the daemon of claude-hue, which shows the usage of a rate-limited account
  on a Philips Hue light: the local fallback calculator (\<^verbatim>\<open>src/daemon/usage.ts\<close>),
  the colour interpolation (\<^verbatim>\<open>src/hue/color.ts\<close>), the parser of the remote usage
  response (\<^verbatim>\<open>src/claude/api.ts\<close>) and the resolver, handlers and startup of the
  daemon (\<^verbatim>\<open>src/daemon/daemon.ts\<close>), followed by the properties proved of them.
\<close>

section \<open>Numbers of the JavaScript runtime\<close>

text \<open>
  A finite JavaScript number is modelled as a \<^typ>\<open>real\<close> (the sign of zero is not
  modelled). The percentages and counts of the parsers and of the local calculator are
  computed in exact arithmetic. The interpolation of colours is computed as the source
  does, in doubles: each operation rounds its exact result (see \<open>toDouble\<close> below).
  A value that may be \<open>NaN\<close> or infinite is a \<open>number\<close>.
\<close>

datatype number = Num real | PosInfinity | NegInfinity | NaN

text \<open>\<^verbatim>\<open>a / b\<close> for finite operands (a zero divisor is read as \<open>+0\<close>).\<close>

definition js_div :: "real \<Rightarrow> real \<Rightarrow> number" where
  "js_div a b =
     (if b \<noteq> 0 then Num (a / b)
      else if a = 0 then NaN
      else if 0 < a then PosInfinity else NegInfinity)"

text \<open>\<^verbatim>\<open>Math.min(a, b)\<close> and \<^verbatim>\<open>Math.max(a, b)\<close>: \<open>NaN\<close> if either argument is.\<close>

fun math_min :: "number \<Rightarrow> number \<Rightarrow> number" where
  "math_min NaN _ = NaN"
| "math_min _ NaN = NaN"
| "math_min NegInfinity _ = NegInfinity"
| "math_min _ NegInfinity = NegInfinity"
| "math_min PosInfinity b = b"
| "math_min a PosInfinity = a"
| "math_min (Num a) (Num b) = Num (min a b)"

fun math_max :: "number \<Rightarrow> number \<Rightarrow> number" where
  "math_max NaN _ = NaN"
| "math_max _ NaN = NaN"
| "math_max PosInfinity _ = PosInfinity"
| "math_max _ PosInfinity = PosInfinity"
| "math_max NegInfinity b = b"
| "math_max a NegInfinity = a"
| "math_max (Num a) (Num b) = Num (max a b)"

text \<open>
  \<^verbatim>\<open>Math.round(v)\<close>: the integer \<open>\<lfloor>v + 1/2\<rfloor>\<close> (ties go up), which is
  \<^const>\<open>round\<close>; the function itself does not round in the sense of doubles.
\<close>

fun math_round :: "number \<Rightarrow> number" where
  "math_round (Num v) = Num (of_int (round v))"
| "math_round n = n"



section \<open>Strings\<close>

text \<open>
  Strings are byte strings. \<^verbatim>\<open>s.split("\n")\<close> cuts at every line feed and always
  returns at least one piece; \<^verbatim>\<open>xs.join(sep)\<close> puts the separator between the pieces.
\<close>

definition LF :: char where
  "LF = CHR 0x0A"

fun split_lines :: "string \<Rightarrow> string list" where
  "split_lines [] = [[]]"
| "split_lines (c # cs) =
     (if c = LF then [] # split_lines cs
      else (case split_lines cs of
              [] \<Rightarrow> [[c]]
            | l # ls \<Rightarrow> (c # l) # ls))"

fun join :: "string \<Rightarrow> string list \<Rightarrow> string" where
  "join sep [] = []"
| "join sep [l] = l"
| "join sep (l # m # ls) = l @ sep @ join sep (m # ls)"

text \<open>
  \<^verbatim>\<open>s.trim()\<close> removes white space and line terminators at both ends; of those
  the model knows the ASCII ones (tab, line feed, vertical tab, form feed, carriage
  return, space).
\<close>

definition isWhitespace :: "char \<Rightarrow> bool" where
  "isWhitespace c = (c = CHR 0x09 \<or> c = CHR 0x0A \<or> c = CHR 0x0B \<or> c = CHR 0x0C
                     \<or> c = CHR 0x0D \<or> c = CHR 0x20)"

definition trim :: "string \<Rightarrow> string" where
  "trim s = rev (dropWhile isWhitespace (rev (dropWhile isWhitespace s)))"


section \<open>Built-ins taken as parameters\<close>

text \<open>
  Four functions of the JavaScript runtime are parameters of the model:
  \<^item> \<open>dateGetTime s\<close> is \<^verbatim>\<open>new Date(s).getTime()\<close>, with \<open>None\<close> for \<open>NaN\<close>;
  \<^item> \<open>parseFloat s\<close> is \<^verbatim>\<open>parseFloat(s)\<close>, with \<open>None\<close> for \<open>NaN\<close>;
  \<^item> \<open>numToString n\<close> is \<^verbatim>\<open>String(n)\<close> for a number \<open>n\<close>;
  \<^item> \<open>toDouble v\<close> is the rounding of IEEE 754 arithmetic: the double nearest to the
    real \<open>v\<close>, or an infinity when \<open>v\<close> is beyond the largest double.
\<close>

record js_runtime =
  dateGetTime :: "string \<Rightarrow> real option"
  parseFloat :: "string \<Rightarrow> real option"
  numToString :: "real \<Rightarrow> string"
  toDouble :: "real \<Rightarrow> number"


section \<open>Arithmetic of doubles\<close>

text \<open>
  \<^verbatim>\<open>a + b\<close>, \<^verbatim>\<open>a - b\<close> and \<^verbatim>\<open>a * b\<close> on numbers: on finite operands the exact
  result rounded by \<open>toDouble\<close>; otherwise the rules of IEEE 754 for \<open>NaN\<close> and the
  infinities.
\<close>

fun js_neg :: "number \<Rightarrow> number" where
  "js_neg (Num a) = Num (- a)"
| "js_neg PosInfinity = NegInfinity"
| "js_neg NegInfinity = PosInfinity"
| "js_neg NaN = NaN"

fun js_add :: "js_runtime \<Rightarrow> number \<Rightarrow> number \<Rightarrow> number" where
  "js_add rt (Num a) (Num b) = toDouble rt (a + b)"
| "js_add rt NaN _ = NaN"
| "js_add rt _ NaN = NaN"
| "js_add rt PosInfinity NegInfinity = NaN"
| "js_add rt NegInfinity PosInfinity = NaN"
| "js_add rt PosInfinity _ = PosInfinity"
| "js_add rt _ PosInfinity = PosInfinity"
| "js_add rt NegInfinity _ = NegInfinity"
| "js_add rt _ NegInfinity = NegInfinity"

definition js_sub :: "js_runtime \<Rightarrow> number \<Rightarrow> number \<Rightarrow> number" where
  "js_sub rt a b = js_add rt a (js_neg b)"

text \<open>The sign of a product with an infinity; \<open>0 * Infinity\<close> is \<open>NaN\<close>.\<close>

definition infinityTimes :: "real \<Rightarrow> number" where
  "infinityTimes a = (if a = 0 then NaN else if 0 < a then PosInfinity else NegInfinity)"

fun js_mul :: "js_runtime \<Rightarrow> number \<Rightarrow> number \<Rightarrow> number" where
  "js_mul rt (Num a) (Num b) = toDouble rt (a * b)"
| "js_mul rt NaN _ = NaN"
| "js_mul rt _ NaN = NaN"
| "js_mul rt PosInfinity (Num b) = infinityTimes b"
| "js_mul rt (Num a) PosInfinity = infinityTimes a"
| "js_mul rt NegInfinity (Num b) = infinityTimes (- b)"
| "js_mul rt (Num a) NegInfinity = infinityTimes (- a)"
| "js_mul rt PosInfinity PosInfinity = PosInfinity"
| "js_mul rt NegInfinity NegInfinity = PosInfinity"
| "js_mul rt PosInfinity NegInfinity = NegInfinity"
| "js_mul rt NegInfinity PosInfinity = NegInfinity"


section \<open>Colour interpolation (src/hue/color.ts)\<close>

record CieXY =
  xy_x :: number
  xy_y :: number

text \<open>
  \<^verbatim>\<open>interpolateColor(start, end, t)\<close>: the parameter \<open>end\<close> is written \<open>finish\<close>.
\<close>

definition interpolateColor :: "js_runtime \<Rightarrow> CieXY \<Rightarrow> CieXY \<Rightarrow> number \<Rightarrow> CieXY" where
  "interpolateColor rt start finish t =
     (let clamped = math_max (Num 0) (math_min (Num 1) t)
      in \<lparr> xy_x = js_add rt (xy_x start)
                      (js_mul rt (js_sub rt (xy_x finish) (xy_x start)) clamped),
           xy_y = js_add rt (xy_y start)
                      (js_mul rt (js_sub rt (xy_y finish) (xy_y start)) clamped) \<rparr>)"

text \<open>\<^verbatim>\<open>interpolateBrightness(start, end, t)\<close>\<close>

definition interpolateBrightness :: "js_runtime \<Rightarrow> number \<Rightarrow> number \<Rightarrow> number \<Rightarrow> number" where
  "interpolateBrightness rt start finish t =
     (let clamped = math_max (Num 0) (math_min (Num 1) t)
      in math_round (js_add rt start (js_mul rt (js_sub rt finish start) clamped)))"


section \<open>The local fallback calculator (src/daemon/usage.ts)\<close>

record UsageResult =
  ur_count :: nat
  ur_percentage :: number

text \<open>
  The file at \<open>logPath\<close> is its content, or \<open>None\<close> when \<^verbatim>\<open>existsSync\<close> is false;
  \<open>now\<close> is what \<^verbatim>\<open>Date.now()\<close> returns in the call.
  \<^verbatim>\<open>lines.filter(Boolean)\<close> keeps the non-empty strings.
\<close>

definition nonEmptyLines :: "string \<Rightarrow> string list" where
  "nonEmptyLines content = filter (\<lambda>l. l \<noteq> []) (split_lines content)"

text \<open>The filter callback of both functions: \<^verbatim>\<open>!isNaN(ts) && ts >= cutoff\<close>.\<close>

definition notBefore :: "js_runtime \<Rightarrow> real \<Rightarrow> string \<Rightarrow> bool" where
  "notBefore rt cutoff line =
     (case dateGetTime rt (trim line) of
        None \<Rightarrow> False
      | Some ts \<Rightarrow> cutoff \<le> ts)"

definition calculateUsage ::
  "js_runtime \<Rightarrow> real \<Rightarrow> string option \<Rightarrow> real \<Rightarrow> real \<Rightarrow> UsageResult" where
  "calculateUsage rt now logFile windowMs maxPrompts =
     (case logFile of
        None \<Rightarrow> \<lparr> ur_count = 0, ur_percentage = Num 0 \<rparr>
      | Some content \<Rightarrow>
          (let cutoff = now - windowMs;
               lines = nonEmptyLines content;
               recentEntries = filter (notBefore rt cutoff) lines;
               count = length recentEntries;
               percentage = math_min (js_div (real count) maxPrompts) (Num 1)
           in \<lparr> ur_count = count, ur_percentage = percentage \<rparr>))"

definition trimLog :: "js_runtime \<Rightarrow> real \<Rightarrow> string option \<Rightarrow> real \<Rightarrow> string option" where
  "trimLog rt now logFile windowMs =
     (case logFile of
        None \<Rightarrow> None
      | Some content \<Rightarrow>
          (let cutoff = now - windowMs * 2;
               lines = nonEmptyLines content;
               kept = filter (notBefore rt cutoff) lines
           in Some (join [LF] kept @ (if kept \<noteq> [] then [LF] else []))))"


text \<open>
  \<^verbatim>\<open>s.toLowerCase()\<close> on the ASCII letters, and \<^verbatim>\<open>s.includes(t)\<close>.
\<close>

definition lowerChar :: "char \<Rightarrow> char" where
  "lowerChar c =
     (let n = (of_char c :: nat)
      in if 65 \<le> n \<and> n \<le> 90 then char_of (n + 32) else c)"

definition toLowerCase :: "string \<Rightarrow> string" where
  "toLowerCase s = map lowerChar s"

fun startsWith :: "string \<Rightarrow> string \<Rightarrow> bool" where
  "startsWith _ [] = True"
| "startsWith [] (_ # _) = False"
| "startsWith (a # as) (b # bs) = (a = b \<and> startsWith as bs)"

fun str_includes :: "string \<Rightarrow> string \<Rightarrow> bool" where
  "str_includes [] t = (t = [])"
| "str_includes (c # cs) t = (startsWith (c # cs) t \<or> str_includes cs t)"


section \<open>JSON values\<close>

text \<open>
  What \<^verbatim>\<open>JSON.parse\<close> returns. An object is the list of its entries in the order
  of \<^verbatim>\<open>Object.keys\<close>; the keys of a JavaScript object are distinct. A property that
  is absent reads as \<^verbatim>\<open>undefined\<close>, which is \<open>None\<close>.
\<close>

datatype json =
    JNull
  | JBool bool
  | JNum real
  | JStr string
  | JArr "json list"
  | JObj "(string \<times> json) list"

definition field :: "json \<Rightarrow> string \<Rightarrow> json option" where
  "field v k = (case v of JObj kvs \<Rightarrow> map_of kvs k | _ \<Rightarrow> None)"

text \<open>\<^verbatim>\<open>a ?? b\<close>: the left operand unless it is \<^verbatim>\<open>null\<close> or \<^verbatim>\<open>undefined\<close>.\<close>

definition notNullish :: "json option \<Rightarrow> json option" where
  "notNullish v = (case v of Some JNull \<Rightarrow> None | _ \<Rightarrow> v)"

fun orElse :: "'a option \<Rightarrow> 'a option \<Rightarrow> 'a option" where
  "orElse (Some a) _ = Some a"
| "orElse None b = b"

text \<open>The truth value of a JSON value in a condition.\<close>

fun truthy :: "json \<Rightarrow> bool" where
  "truthy JNull = False"
| "truthy (JBool b) = b"
| "truthy (JNum n) = (n \<noteq> 0)"
| "truthy (JStr s) = (s \<noteq> [])"
| "truthy (JArr _) = True"
| "truthy (JObj _) = True"

text \<open>
  \<^verbatim>\<open>val && typeof val === "object" && !Array.isArray(val)\<close>, and the same without
  the array test.
\<close>

fun isPlainObject :: "json \<Rightarrow> bool" where
  "isPlainObject (JObj _) = True"
| "isPlainObject _ = False"

fun isObjectOrArray :: "json \<Rightarrow> bool" where
  "isObjectOrArray (JObj _) = True"
| "isObjectOrArray (JArr _) = True"
| "isObjectOrArray _ = False"


section \<open>The remote usage parser (src/claude/api.ts)\<close>

text \<open>
  The field \<open>type\<close> of a limit is whatever JSON value the response holds there (the
  source casts it to a string without a test); \<open>resetAt\<close> is \<open>None\<close> for
  \<^verbatim>\<open>null\<close>.
\<close>

record UsageLimit =
  ul_type :: json
  ul_percentUsed :: real
  ul_resetAt :: "json option"

record ClaudeUsageResponse =
  limits :: "UsageLimit list"
  highestPercent :: real

datatype js_error = TypeError | FetchError | ConfigError

definition toNumber :: "js_runtime \<Rightarrow> json option \<Rightarrow> real option" where
  "toNumber rt v =
     (case v of
        Some (JNum n) \<Rightarrow> Some n
      | Some (JStr s) \<Rightarrow> parseFloat rt s
      | _ \<Rightarrow> None)"

definition parseUsageEntry :: "js_runtime \<Rightarrow> json \<Rightarrow> string option \<Rightarrow> UsageLimit option" where
  "parseUsageEntry rt entry fallbackType =
     (let rawPercent =
            orElse (toNumber rt (field entry ''utilization''))
           (orElse (toNumber rt (field entry ''percentUsed''))
           (orElse (toNumber rt (field entry ''percent_used''))
           (orElse (toNumber rt (field entry ''percentage''))
                   (toNumber rt (field entry ''usage_percentage'')))))
      in case rawPercent of
           None \<Rightarrow> None
         | Some raw \<Rightarrow>
             (let percent = (if 1 < raw then raw / 100 else raw);
                  ty = orElse (notNullish (field entry ''type''))
                      (orElse (notNullish (field entry ''name''))
                      (orElse (notNullish (field entry ''limit_type''))
                      (orElse (map_option JStr fallbackType)
                              (Some (JStr ''unknown'')))));
                  resetAt = orElse (notNullish (field entry ''resetAt''))
                           (orElse (notNullish (field entry ''reset_at''))
                           (orElse (notNullish (field entry ''resets_at''))
                           (orElse (notNullish (field entry ''resetsAt''))
                                   (notNullish (field entry ''expires_at'')))))
              in Some \<lparr> ul_type = (case ty of Some t \<Rightarrow> t | None \<Rightarrow> JStr ''unknown''),
                        ul_percentUsed = percent,
                        ul_resetAt = resetAt \<rparr>))"

text \<open>The loop over an array response.\<close>

fun arrayLimits :: "js_runtime \<Rightarrow> json list \<Rightarrow> UsageLimit list" where
  "arrayLimits rt [] = []"
| "arrayLimits rt (entry # rest) =
     (if isObjectOrArray entry
      then (case parseUsageEntry rt entry None of
              Some limit \<Rightarrow> limit # arrayLimits rt rest
            | None \<Rightarrow> arrayLimits rt rest)
      else arrayLimits rt rest)"

text \<open>
  The loop over the keys of an object response \<open>obj\<close>, with its \<^verbatim>\<open>break\<close>: the
  second argument is the entries still to visit.
\<close>

fun objectLimits :: "js_runtime \<Rightarrow> json \<Rightarrow> (string \<times> json) list \<Rightarrow> UsageLimit list" where
  "objectLimits rt obj [] = []"
| "objectLimits rt obj ((key, val) # rest) =
     (let fromVal =
            (if isPlainObject val
             then (case parseUsageEntry rt val (Some key) of
                     Some limit \<Rightarrow> [limit]
                   | None \<Rightarrow> [])
             else [])
      in if key = ''percentUsed'' \<or> key = ''percent_used'' \<or> key = ''percentage''
         then (case parseUsageEntry rt obj None of
                 Some limit \<Rightarrow> fromVal @ [limit]
               | None \<Rightarrow> fromVal @ objectLimits rt obj rest)
         else fromVal @ objectLimits rt obj rest)"

definition isFiveHour :: "string \<Rightarrow> bool" where
  "isFiveHour ty = (str_includes (toLowerCase ty) ''five_hour''
                    \<or> str_includes (toLowerCase ty) ''five hour'')"

definition isSevenDay :: "string \<Rightarrow> bool" where
  "isSevenDay ty = (str_includes (toLowerCase ty) ''seven_day''
                    \<or> str_includes (toLowerCase ty) ''seven day'')"

definition isExtra :: "string \<Rightarrow> bool" where
  "isExtra ty = str_includes (toLowerCase ty) ''extra''"

text \<open>
  \<^verbatim>\<open>limits.find(l => p(l.type))\<close> and \<^verbatim>\<open>limits.filter(l => !p(l.type))\<close> for a
  test \<open>p\<close> that calls \<^verbatim>\<open>l.type.toLowerCase()\<close>: the call throws a
  \<^verbatim>\<open>TypeError\<close> when the type is not a string.
\<close>

fun findByType :: "(string \<Rightarrow> bool) \<Rightarrow> UsageLimit list \<Rightarrow> js_error + UsageLimit option" where
  "findByType p [] = Inr None"
| "findByType p (l # ls) =
     (case ul_type l of
        JStr ty \<Rightarrow> (if p ty then Inr (Some l) else findByType p ls)
      | _ \<Rightarrow> Inl TypeError)"

fun rejectByType :: "(string \<Rightarrow> bool) \<Rightarrow> UsageLimit list \<Rightarrow> js_error + UsageLimit list" where
  "rejectByType p [] = Inr []"
| "rejectByType p (l # ls) =
     (case ul_type l of
        JStr ty \<Rightarrow>
          (case rejectByType p ls of
             Inl e \<Rightarrow> Inl e
           | Inr rest \<Rightarrow> Inr (if p ty then rest else l # rest))
      | _ \<Rightarrow> Inl TypeError)"

text \<open>
  \<^verbatim>\<open>xs.length > 0 ? Math.max(...xs) : 0\<close> on the percentages of a list of limits.
\<close>

definition highestOf :: "UsageLimit list \<Rightarrow> real" where
  "highestOf ls =
     (case map ul_percentUsed ls of
        [] \<Rightarrow> 0
      | p # ps \<Rightarrow> foldl max p ps)"

definition parseUsageResponse :: "js_runtime \<Rightarrow> json \<Rightarrow> js_error + ClaudeUsageResponse" where
  "parseUsageResponse rt raw =
     (let lims = (case raw of
                    JArr entries \<Rightarrow> arrayLimits rt entries
                  | JObj kvs \<Rightarrow> objectLimits rt raw kvs
                  | _ \<Rightarrow> [])
      in case findByType isFiveHour lims of
           Inl e \<Rightarrow> Inl e
         | Inr fiveHour \<Rightarrow>
             (case findByType isSevenDay lims of
                Inl e \<Rightarrow> Inl e
              | Inr sevenDay \<Rightarrow>
                  (case orElse fiveHour sevenDay of
                     Some primary \<Rightarrow>
                       Inr \<lparr> limits = lims, highestPercent = highestOf [primary] \<rparr>
                   | None \<Rightarrow>
                       (case rejectByType isExtra lims of
                          Inl e \<Rightarrow> Inl e
                        | Inr limitsForHighest \<Rightarrow>
                            Inr \<lparr> limits = lims,
                                  highestPercent = highestOf limitsForHighest \<rparr>))))"


section \<open>The daemon (src/daemon/daemon.ts)\<close>

subsection \<open>Strings of values\<close>

text \<open>
  What a template literal makes of a JSON value: \<^verbatim>\<open>String(v)\<close>. An array joins its
  elements with commas, \<^verbatim>\<open>null\<close> elements being empty.
\<close>

fun toStr :: "js_runtime \<Rightarrow> json \<Rightarrow> string" where
  "toStr rt JNull = ''null''"
| "toStr rt (JBool b) = (if b then ''true'' else ''false'')"
| "toStr rt (JNum n) = numToString rt n"
| "toStr rt (JStr s) = s"
| "toStr rt (JArr vs) = join '','' (map (\<lambda>v. if v = JNull then [] else toStr rt v) vs)"
| "toStr rt (JObj _) = ''[object Object]''"

subsection \<open>The payload pushed by the browser extension\<close>

record ext_entry =
  ee_type :: string
  ee_pct :: real
  ee_reset :: "json option"

record ext_usage =
  eu_percentage :: real
  eu_details :: string

text \<open>\<^verbatim>\<open>typeof v.k === "number" ? v.k : null\<close>\<close>

definition numberField :: "json \<Rightarrow> string \<Rightarrow> real option" where
  "numberField v k = (case field v k of Some (JNum n) \<Rightarrow> Some n | _ \<Rightarrow> None)"

text \<open>
  \<^verbatim>\<open>Object.entries(data)\<close> of a value that passed the first test of
  \<open>parseExtensionUsage\<close>: the entries of an object, or the elements of an array under
  their indices.
\<close>

definition objectEntries :: "js_runtime \<Rightarrow> json \<Rightarrow> (string \<times> json) list option" where
  "objectEntries rt data =
     (case data of
        JObj kvs \<Rightarrow> Some kvs
      | JArr vs \<Rightarrow> Some (zip (map (\<lambda>i. numToString rt (real i)) [0 ..< length vs]) vs)
      | _ \<Rightarrow> None)"

fun extensionEntries :: "(string \<times> json) list \<Rightarrow> ext_entry list" where
  "extensionEntries [] = []"
| "extensionEntries ((key, val) # rest) =
     (if isPlainObject val
      then (let raw = orElse (numberField val ''utilization'')
                     (orElse (numberField val ''percentUsed'')
                     (orElse (numberField val ''percent_used'')
                             (numberField val ''percentage'')))
            in case raw of
                 None \<Rightarrow> extensionEntries rest
               | Some r \<Rightarrow>
                   \<lparr> ee_type = key,
                     ee_pct = (if 1 < r then r else r * 100),
                     ee_reset = orElse (notNullish (field val ''resetAt''))
                               (orElse (notNullish (field val ''reset_at''))
                               (orElse (notNullish (field val ''resets_at''))
                                       (field val ''resetsAt''))) \<rparr>
                   # extensionEntries rest)
      else extensionEntries rest)"

definition resetInfo :: "js_runtime \<Rightarrow> json option \<Rightarrow> string" where
  "resetInfo rt reset =
     (case reset of
        None \<Rightarrow> []
      | Some r \<Rightarrow> (if truthy r then '', resets '' @ toStr rt r else []))"

definition parseExtensionUsage :: "js_runtime \<Rightarrow> json \<Rightarrow> ext_usage option" where
  "parseExtensionUsage rt data =
     (case objectEntries rt data of
        None \<Rightarrow> None
      | Some kvs \<Rightarrow>
          (case extensionEntries kvs of
             [] \<Rightarrow> None
           | e # es \<Rightarrow>
               (let highest = foldl max (ee_pct e) (map ee_pct es);
                    details =
                      join '' | ''
                        (map (\<lambda>e. ee_type e @ '': ''
                                   @ numToString rt (of_int (round (ee_pct e))) @ ''%''
                                   @ resetInfo rt (ee_reset e))
                           (e # es))
                in Some \<lparr> eu_percentage = highest / 100, eu_details = details \<rparr>)))"

subsection \<open>State\<close>

datatype usage_source = Extension | OAuth | Api | Local

record remote_usage =
  ru_percentage :: real
  ru_details :: string
  ru_receivedAt :: real
  ru_source :: usage_source

record ClaudeAuthConfig =
  cookie :: string
  orgId :: string

text \<open>
  The configuration, without the bridge and light fields (they only address the request
  to the bridge).
\<close>

record ClaudeHueConfig =
  colors_start :: CieXY
  colors_end :: CieXY
  brightness_start :: real
  brightness_end :: real
  usage_maxPrompts :: real
  usage_windowMs :: real
  daemon_transitionMs :: real
  daemon_pollIntervalMs :: real
  claude :: "ClaudeAuthConfig option"

record resolved_usage =
  res_percentage :: number
  res_source :: usage_source
  res_details :: string

text \<open>
  One call of \<open>updateLight\<close>: what \<open>getUsagePercentage\<close> returned, and the colour and
  brightness handed to \<open>setLightColor\<close>.
\<close>

record light_update =
  lu_usage :: resolved_usage
  lu_color :: CieXY
  lu_brightness :: number

datatype adapter_call = OAuthFetch string | CookieFetch string string

text \<open>
  The module's variables \<open>running\<close>, \<open>remoteUsage\<close> and \<open>watcher\<close> (armed or not), the
  two files the daemon reads and writes (\<open>None\<close>: the file does not exist), and two
  traces: the calls of \<open>updateLight\<close> and the calls of the remote adapters
  (\<open>fetchUsageViaOAuth\<close>, \<open>fetchUsage\<close>), oldest first.
\<close>

record daemon_state =
  running :: bool
  remoteUsage :: "remote_usage option"
  watcher :: bool
  usageLog :: "string option"
  pidFile :: "string option"
  lightUpdates :: "light_update list"
  adapterCalls :: "adapter_call list"

text \<open>
  What one run of a handler reads from outside the process. Each call of
  \<^verbatim>\<open>Date.now()\<close> has a reading of its own, named after the place of the call;
  \<open>oauthToken\<close> is what \<open>getClaudeCodeOAuthToken\<close> returns (a token, which is never
  empty, or \<open>None\<close> for \<^verbatim>\<open>null\<close>); a response is \<open>None\<close> when the request throws
  (network error, status not ok, body not JSON).
\<close>

record handler_env =
  now_stale :: real
  oauthToken :: "string option"
  oauthResponse :: "string \<Rightarrow> json option"
  now_oauth :: real
  cookieResponse :: "string \<Rightarrow> string \<Rightarrow> json option"
  now_cookie :: real
  now_push :: real
  now_resolve :: real
  now_count :: real
  now_trim :: real
  watchOk :: bool

definition USAGE_STALE_MS :: real where
  "USAGE_STALE_MS = 5 * 60 * 1000"

subsection \<open>Resolving and applying\<close>

definition getUsagePercentage ::
  "js_runtime \<Rightarrow> ClaudeHueConfig \<Rightarrow> handler_env \<Rightarrow> daemon_state \<Rightarrow> resolved_usage" where
  "getUsagePercentage rt config env s =
     (let fallback =
            (let r = calculateUsage rt (now_count env) (usageLog s)
                       (usage_windowMs config) (usage_maxPrompts config)
             in \<lparr> res_percentage = ur_percentage r,
                  res_source = Local,
                  res_details = numToString rt (real (ur_count r)) @ ''/''
                                @ numToString rt (usage_maxPrompts config) @ '' prompts'' \<rparr>)
      in case remoteUsage s of
           None \<Rightarrow> fallback
         | Some u \<Rightarrow>
             (if now_resolve env - ru_receivedAt u < USAGE_STALE_MS
              then \<lparr> res_percentage = Num (ru_percentage u),
                     res_source = ru_source u,
                     res_details = ru_details u \<rparr>
              else fallback))"

text \<open>
  \<open>updateLight\<close>: the outcome of \<open>setLightColor\<close> only chooses the line written to
  the console, so the model records the call and nothing else.
\<close>

definition updateLight ::
  "js_runtime \<Rightarrow> ClaudeHueConfig \<Rightarrow> handler_env \<Rightarrow> daemon_state \<Rightarrow> daemon_state" where
  "updateLight rt config env s =
     (let usage = getUsagePercentage rt config env s;
          color = interpolateColor rt (colors_start config) (colors_end config)
                    (res_percentage usage);
          brightness = interpolateBrightness rt (Num (brightness_start config))
                         (Num (brightness_end config)) (res_percentage usage)
      in s\<lparr> lightUpdates := lightUpdates s
                @ [\<lparr> lu_usage = usage, lu_color = color, lu_brightness = brightness \<rparr>] \<rparr>)"

subsection \<open>The remote adapters\<close>

text \<open>
  \<open>fetchUsageViaOAuth\<close> and \<open>fetchUsage\<close>, given the response to their request: they
  throw when the request does, and otherwise return what \<open>parseUsageResponse\<close> makes of
  the body.
\<close>

definition fetchUsageViaOAuth :: "js_runtime \<Rightarrow> json option \<Rightarrow> js_error + ClaudeUsageResponse" where
  "fetchUsageViaOAuth rt response =
     (case response of None \<Rightarrow> Inl FetchError | Some raw \<Rightarrow> parseUsageResponse rt raw)"

definition fetchUsage :: "js_runtime \<Rightarrow> json option \<Rightarrow> js_error + ClaudeUsageResponse" where
  "fetchUsage rt response =
     (case response of None \<Rightarrow> Inl FetchError | Some raw \<Rightarrow> parseUsageResponse rt raw)"

text \<open>
  The snapshot the daemon builds from a fetched result (the same lines at each of the
  four places that store one).
\<close>

definition snapshotOf ::
  "js_runtime \<Rightarrow> ClaudeUsageResponse \<Rightarrow> real \<Rightarrow> usage_source \<Rightarrow> remote_usage" where
  "snapshotOf rt result now src =
     \<lparr> ru_percentage = highestPercent result,
       ru_details =
         join '' | ''
           (map (\<lambda>l. toStr rt (ul_type l) @ '': ''
                      @ numToString rt (of_int (round (ul_percentUsed l * 100))) @ ''%''
                      @ resetInfo rt (ul_resetAt l))
              (limits result)),
       ru_receivedAt = now,
       ru_source = src \<rparr>"

definition cookieConfigured :: "ClaudeHueConfig \<Rightarrow> bool" where
  "cookieConfigured config =
     (case claude config of
        None \<Rightarrow> False
      | Some auth \<Rightarrow> cookie auth \<noteq> [] \<and> orgId auth \<noteq> [])"

text \<open>Step 1 of the poll: the OAuth adapter, when a token is found.\<close>

definition pollOAuth :: "js_runtime \<Rightarrow> handler_env \<Rightarrow> daemon_state \<Rightarrow> daemon_state" where
  "pollOAuth rt env s =
     (case oauthToken env of
        None \<Rightarrow> s
      | Some token \<Rightarrow>
          (let s' = s\<lparr> adapterCalls := adapterCalls s @ [OAuthFetch token] \<rparr>
           in case fetchUsageViaOAuth rt (oauthResponse env token) of
                Inl _ \<Rightarrow> s'
              | Inr result \<Rightarrow>
                  (if limits result \<noteq> []
                   then s'\<lparr> remoteUsage := Some (snapshotOf rt result (now_oauth env) OAuth) \<rparr>
                   else s')))"

text \<open>Step 2 of the poll: the cookie adapter, under the source's condition.\<close>

definition pollCookie ::
  "js_runtime \<Rightarrow> ClaudeHueConfig \<Rightarrow> handler_env \<Rightarrow> daemon_state \<Rightarrow> daemon_state" where
  "pollCookie rt config env s =
     (case claude config of
        None \<Rightarrow> s
      | Some auth \<Rightarrow>
          (if remoteUsage s = None \<and> cookie auth \<noteq> [] \<and> orgId auth \<noteq> []
           then (let s' = s\<lparr> adapterCalls := adapterCalls s
                               @ [CookieFetch (cookie auth) (orgId auth)] \<rparr>
                 in case fetchUsage rt (cookieResponse env (cookie auth) (orgId auth)) of
                      Inl _ \<Rightarrow> s'
                    | Inr result \<Rightarrow>
                        (if limits result \<noteq> []
                         then s'\<lparr> remoteUsage := Some (snapshotOf rt result (now_cookie env) Api) \<rparr>
                         else s'))
           else s))"

subsection \<open>The handlers\<close>

text \<open>The callback of \<^verbatim>\<open>setInterval\<close>.\<close>

definition pollTick ::
  "js_runtime \<Rightarrow> ClaudeHueConfig \<Rightarrow> handler_env \<Rightarrow> daemon_state \<Rightarrow> daemon_state" where
  "pollTick rt config env s =
     (if \<not> running s then s
      else
        (let isStale = (case remoteUsage s of
                          None \<Rightarrow> True
                        | Some u \<Rightarrow> USAGE_STALE_MS < now_stale env - ru_receivedAt u);
             s1 = (if isStale then pollCookie rt config env (pollOAuth rt env s) else s);
             s2 = updateLight rt config env s1;
             s3 = s2\<lparr> usageLog := trimLog rt (now_trim env) (usageLog s2) (usage_windowMs config) \<rparr>
         in if \<not> watcher s3 \<and> usageLog s3 \<noteq> None
            then s3\<lparr> watcher := watchOk env \<rparr>
            else s3))"

text \<open>
  \<^verbatim>\<open>POST /usage\<close>: the body is what \<^verbatim>\<open>JSON.parse\<close> returned, or \<open>None\<close> when it
  threw. The result is the status of the response and the new state.
\<close>

definition handlePush ::
  "js_runtime \<Rightarrow> ClaudeHueConfig \<Rightarrow> handler_env \<Rightarrow> json option \<Rightarrow> daemon_state
     \<Rightarrow> nat \<times> daemon_state" where
  "handlePush rt config env body s =
     (case body of
        None \<Rightarrow> (400, s)
      | Some data \<Rightarrow>
          (case parseExtensionUsage rt data of
             None \<Rightarrow> (400, s)
           | Some parsed \<Rightarrow>
               (200,
                updateLight rt config env
                  (s\<lparr> remoteUsage :=
                        Some \<lparr> ru_percentage = eu_percentage parsed,
                               ru_details = eu_details parsed,
                               ru_receivedAt = now_push env,
                               ru_source = Extension \<rparr> \<rparr>))))"

text \<open>\<^verbatim>\<open>GET /status\<close>\<close>

record status_body =
  sb_running :: bool
  extensionConnected :: bool
  lastUpdate :: "real option"

definition handleStatus :: "daemon_state \<Rightarrow> status_body" where
  "handleStatus s =
     \<lparr> sb_running = True,
       extensionConnected = (remoteUsage s \<noteq> None),
       lastUpdate = map_option ru_receivedAt (remoteUsage s) \<rparr>"

text \<open>The callback of the file watcher.\<close>

definition logChanged ::
  "js_runtime \<Rightarrow> ClaudeHueConfig \<Rightarrow> handler_env \<Rightarrow> daemon_state \<Rightarrow> daemon_state" where
  "logChanged rt config env s = (if running s then updateLight rt config env s else s)"

text \<open>
  The events of the running daemon, each handled to its end before the next (a push
  that arrives while a poll waits for a response is not modelled).
\<close>

datatype event = Poll | Push "json option" | LogChange | StatusRequest

definition handle ::
  "js_runtime \<Rightarrow> ClaudeHueConfig \<Rightarrow> handler_env \<Rightarrow> event \<Rightarrow> daemon_state \<Rightarrow> daemon_state" where
  "handle rt config env ev s =
     (case ev of
        Poll \<Rightarrow> pollTick rt config env s
      | Push body \<Rightarrow> snd (handlePush rt config env body s)
      | LogChange \<Rightarrow> logChanged rt config env s
      | StatusRequest \<Rightarrow> s)"


subsection \<open>Starting\<close>

text \<open>
  \<^verbatim>\<open>parseInt(s, 10)\<close>, with \<open>None\<close> for \<open>NaN\<close>: leading white space, a sign, then
  the longest run of decimal digits (at least one).
\<close>

definition isDigit :: "char \<Rightarrow> bool" where
  "isDigit c = (48 \<le> (of_char c :: nat) \<and> (of_char c :: nat) \<le> 57)"

definition digitsValue :: "string \<Rightarrow> nat" where
  "digitsValue ds = foldl (\<lambda>acc c. 10 * acc + (of_char c - 48)) 0 ds"

definition parseInt :: "string \<Rightarrow> int option" where
  "parseInt s =
     (let body = dropWhile isWhitespace s;
          negative = (case body of c # _ \<Rightarrow> c = CHR ''-'' | [] \<Rightarrow> False);
          unsigned = (case body of
                        c # cs \<Rightarrow> (if c = CHR ''-'' \<or> c = CHR ''+'' then cs else body)
                      | [] \<Rightarrow> []);
          digits = takeWhile isDigit unsigned
      in if digits = [] then None
         else Some (if negative then - int (digitsValue digits) else int (digitsValue digits)))"

definition readPid :: "daemon_state \<Rightarrow> int option" where
  "readPid s =
     (case pidFile s of
        None \<Rightarrow> None
      | Some content \<Rightarrow> parseInt (trim content))"

definition removePid :: "daemon_state \<Rightarrow> daemon_state" where
  "removePid s = s\<lparr> pidFile := None \<rparr>"

text \<open>
  \<^verbatim>\<open>process.kill(pid, 0)\<close> either returns (the signal could be delivered: the process
  exists) or throws, with \<^verbatim>\<open>ESRCH\<close> when no such process exists and \<^verbatim>\<open>EPERM\<close>
  when the process may not be signalled.
\<close>

datatype kill_result = Delivered | ESRCH | EPERM

definition isDaemonRunning :: "(int \<Rightarrow> kill_result) \<Rightarrow> daemon_state \<Rightarrow> bool \<times> daemon_state" where
  "isDaemonRunning processKill s =
     (case readPid s of
        None \<Rightarrow> (False, s)
      | Some pid \<Rightarrow>
          (case processKill pid of
             Delivered \<Rightarrow> (True, s)
           | _ \<Rightarrow> (False, removePid s)))"

text \<open>
  The configuration file: absent, not JSON, or the configuration it holds.
  \<open>loadConfig\<close> throws in the first two cases.
\<close>

datatype config_file = NoConfigFile | BadConfigFile | ConfigFile ClaudeHueConfig

definition loadConfig :: "config_file \<Rightarrow> js_error + ClaudeHueConfig" where
  "loadConfig f =
     (case f of
        NoConfigFile \<Rightarrow> Inl ConfigError
      | BadConfigFile \<Rightarrow> Inl ConfigError
      | ConfigFile config \<Rightarrow> Inr config)"

text \<open>
  \<open>fetchUsageOnStartup\<close>: as in the poll, but the cookie adapter is skipped only when
  the OAuth adapter stored a snapshot (the function returns there).
\<close>

definition startupCookie ::
  "js_runtime \<Rightarrow> ClaudeHueConfig \<Rightarrow> handler_env \<Rightarrow> daemon_state \<Rightarrow> daemon_state" where
  "startupCookie rt config env s =
     (case claude config of
        None \<Rightarrow> s
      | Some auth \<Rightarrow>
          (if cookie auth \<noteq> [] \<and> orgId auth \<noteq> []
           then (let s' = s\<lparr> adapterCalls := adapterCalls s
                               @ [CookieFetch (cookie auth) (orgId auth)] \<rparr>
                 in case fetchUsage rt (cookieResponse env (cookie auth) (orgId auth)) of
                      Inl _ \<Rightarrow> s'
                    | Inr result \<Rightarrow>
                        (if limits result \<noteq> []
                         then s'\<lparr> remoteUsage := Some (snapshotOf rt result (now_cookie env) Api) \<rparr>
                         else s'))
           else s))"

definition fetchUsageOnStartup ::
  "js_runtime \<Rightarrow> ClaudeHueConfig \<Rightarrow> handler_env \<Rightarrow> daemon_state \<Rightarrow> daemon_state" where
  "fetchUsageOnStartup rt config env s =
     (case oauthToken env of
        None \<Rightarrow> startupCookie rt config env s
      | Some token \<Rightarrow>
          (let s' = s\<lparr> adapterCalls := adapterCalls s @ [OAuthFetch token] \<rparr>
           in case fetchUsageViaOAuth rt (oauthResponse env token) of
                Inl _ \<Rightarrow> startupCookie rt config env s'
              | Inr result \<Rightarrow>
                  (if limits result \<noteq> []
                   then s'\<lparr> remoteUsage := Some (snapshotOf rt result (now_oauth env) OAuth) \<rparr>
                   else startupCookie rt config env s')))"

text \<open>
  What the process reads when it starts: the outcome of signal 0 for a process id, its
  own process id and the configuration file, beside the readings of the handlers.
\<close>

record start_env =
  processKill :: "int \<Rightarrow> kill_result"
  processPid :: int
  configFile :: config_file
  handlerEnv :: handler_env

datatype start_outcome = Exited nat | Threw js_error | Started ClaudeHueConfig

text \<open>
  \<open>startDaemon\<close>, up to the point where the timer is set: \<^verbatim>\<open>process.exit(1)\<close> ends
  the call at once.
\<close>

definition startDaemon :: "js_runtime \<Rightarrow> start_env \<Rightarrow> daemon_state \<Rightarrow> start_outcome \<times> daemon_state" where
  "startDaemon rt env s =
     (case isDaemonRunning (processKill env) s of
        (True, s0) \<Rightarrow> (Exited 1, s0)
      | (False, s0) \<Rightarrow>
          (case loadConfig (configFile env) of
             Inl e \<Rightarrow> (Threw e, s0)
           | Inr config \<Rightarrow>
               (let s1 = s0\<lparr> pidFile := Some (numToString rt (of_int (processPid env))),
                             running := True \<rparr>;
                    s2 = fetchUsageOnStartup rt config (handlerEnv env) s1;
                    s3 = updateLight rt config (handlerEnv env) s2;
                    s4 = (if usageLog s3 \<noteq> None then s3\<lparr> watcher := watchOk (handlerEnv env) \<rparr>
                          else s3)
                in (Started config, s4))))"


section \<open>Values for the examples\<close>

text \<open>
  The runtime on the values the examples use: two dates, one decimal, the small
  numbers, and the rounding of the doubles that occur, which leaves them as they are
  (they are multiples of 1/4 of small size). On any other real this \<open>toDouble\<close> answers
  \<open>NaN\<close>; no example reads it there.
\<close>

definition exampleRuntime :: js_runtime where
  "exampleRuntime =
     \<lparr> dateGetTime = (\<lambda>s. if s = ''1970-01-01T00:00:01.000Z'' then Some 1000
                          else if s = ''1970-01-01T00:00:09.000Z'' then Some 9000
                          else None),
       parseFloat = (\<lambda>s. if s = ''42'' then Some 42 else None),
       numToString = (\<lambda>n. if n = 0 then ''0'' else if n = 1 then ''1''
                          else if n = 10 then ''10'' else if n = 45 then ''45''
                          else if n = 50 then ''50'' else if n = 4242 then ''4242''
                          else ''?''),
       toDouble = (\<lambda>v. if v \<in> set [0, 1/4, - (1/4), 1/2, - (1/2), 3/4,
                                       50, - 50, - 25, 75, 100,
                                       51, - 49, - (49/2), 151/2]
                         then Num v else NaN) \<rparr>"

text \<open>\<open>COLOR_PRESETS.green\<close> and \<open>COLOR_PRESETS.red\<close>, the default colours.\<close>

definition green :: CieXY where
  "green = \<lparr> xy_x = Num (2151 / 10000), xy_y = Num (7106 / 10000) \<rparr>"

definition red :: CieXY where
  "red = \<lparr> xy_x = Num (675 / 1000), xy_y = Num (322 / 1000) \<rparr>"

text \<open>The default configuration, with a cookie or without.\<close>

definition exampleConfig :: "ClaudeAuthConfig option \<Rightarrow> ClaudeHueConfig" where
  "exampleConfig auth =
     \<lparr> colors_start = green, colors_end = red,
       brightness_start = 100, brightness_end = 100,
       usage_maxPrompts = 45, usage_windowMs = 18000000,
       daemon_transitionMs = 2000, daemon_pollIntervalMs = 60000,
       claude = auth \<rparr>"

definition exampleAuth :: ClaudeAuthConfig where
  "exampleAuth = \<lparr> cookie = ''sessionKey=k'', orgId = ''org'' \<rparr>"

text \<open>A response with a five-hour limit at 10 percent and a seven-day limit at 50.\<close>

definition examplePayload :: json where
  "examplePayload =
     JObj [(''five_hour'', JObj [(''utilization'', JNum 10)]),
           (''seven_day'', JObj [(''utilization'', JNum 50)])]"

text \<open>
  Readings of a handler that runs at time \<open>t\<close>: an OAuth token whose request fails,
  and a cookie request that answers with \<open>examplePayload\<close>.
\<close>

definition exampleEnv :: "real \<Rightarrow> handler_env" where
  "exampleEnv t =
     \<lparr> now_stale = t, oauthToken = Some ''tok'', oauthResponse = (\<lambda>_. None), now_oauth = t,
       cookieResponse = (\<lambda>_ _. Some examplePayload), now_cookie = t, now_push = t,
       now_resolve = t, now_count = t, now_trim = t, watchOk = True \<rparr>"

text \<open>A running daemon that holds the snapshot \<open>u\<close> and has no usage log.\<close>

definition exampleState :: "remote_usage option \<Rightarrow> daemon_state" where
  "exampleState u =
     \<lparr> running = True, remoteUsage = u, watcher = False, usageLog = None,
       pidFile = Some ''4242'', lightUpdates = [], adapterCalls = [] \<rparr>"

definition exampleSnapshot :: "usage_source \<Rightarrow> remote_usage" where
  "exampleSnapshot src =
     \<lparr> ru_percentage = 1 / 2, ru_details = ''seven_day: 50%'', ru_receivedAt = 0,
       ru_source = src \<rparr>"


text \<open>
  The process that runs \<open>startDaemon\<close>: nothing started yet, and a marker file with
  the given content. Its environment answers signal 0 with \<open>k\<close> for every process
  id; the process itself has the id 4242.
\<close>

definition exampleStartEnv :: "kill_result \<Rightarrow> start_env" where
  "exampleStartEnv k =
     \<lparr> processKill = (\<lambda>_. k), processPid = 4242,
       configFile = ConfigFile (exampleConfig None), handlerEnv = exampleEnv 0 \<rparr>"

definition exampleFreshProcess :: "string \<Rightarrow> daemon_state" where
  "exampleFreshProcess marker =
     \<lparr> running = False, remoteUsage = None, watcher = False, usageLog = None,
       pidFile = Some marker, lightUpdates = [], adapterCalls = [] \<rparr>"


section \<open>Predicates of the statements\<close>




text \<open>
  The names under which the parsers look for a utilization. An object is in range when
  each of these fields that reads as a number (by \<open>toNumber\<close>) lies between 0 and 100;
  a payload is in range when it and each of its elements or entries are.
\<close>

definition utilizationFields :: "string list" where
  "utilizationFields = [''utilization'', ''percentUsed'', ''percent_used'', ''percentage'',
      ''usage_percentage'']"

definition objectInRange :: "js_runtime \<Rightarrow> json \<Rightarrow> bool" where
  "objectInRange rt v =
     list_all (\<lambda>k. case toNumber rt (field v k) of
                      None \<Rightarrow> True
                    | Some r \<Rightarrow> 0 \<le> r \<and> r \<le> 100)
       utilizationFields"

definition payloadInRange :: "js_runtime \<Rightarrow> json \<Rightarrow> bool" where
  "payloadInRange rt raw =
     (objectInRange rt raw
      \<and> (case raw of
            JArr vs \<Rightarrow> list_all (objectInRange rt) vs
          | JObj kvs \<Rightarrow> list_all (\<lambda>kv. objectInRange rt (snd kv)) kvs
          | _ \<Rightarrow> True))"

text \<open>The stored snapshot, if there is one, has a percentage between 0 and 1.\<close>

definition snapshotInUnit :: "daemon_state \<Rightarrow> bool" where
  "snapshotInUnit s =
     (case remoteUsage s of
        None \<Rightarrow> True
      | Some u \<Rightarrow> 0 \<le> ru_percentage u \<and> ru_percentage u \<le> 1)"


section \<open>Lines of a file\<close>

lemma split_lines_not_Nil: "split_lines s \<noteq> []"
  by (induction s) (auto split: list.splits)

lemma split_lines_append_LF:
  "LF \<notin> set l \<Longrightarrow> split_lines (l @ LF # rest) = l # split_lines rest"
  by (induction l) (auto simp: split_lines_not_Nil split: list.splits)

lemma split_lines_pieces: "l \<in> set (split_lines s) \<Longrightarrow> LF \<notin> set l"
proof (induction s arbitrary: l)
  case Nil
  then show ?case by simp
next
  case (Cons c cs)
  show ?case
  proof (cases "c = LF")
    case True
    with Cons show ?thesis by auto
  next
    case False
    obtain p ps where sp: "split_lines cs = p # ps"
      using split_lines_not_Nil [of cs] by (cases "split_lines cs") auto
    with False Cons.prems have "l = c # p \<or> l \<in> set ps" by auto
    then show ?thesis
    proof
      assume "l = c # p"
      moreover have "LF \<notin> set p" using Cons.IH [of p] sp by simp
      ultimately show ?thesis using False by auto
    next
      assume "l \<in> set ps"
      then show ?thesis using Cons.IH [of l] sp by simp
    qed
  qed
qed

text \<open>Reading back what \<open>trimLog\<close> writes gives the lines it kept.\<close>

lemma split_lines_join:
  "\<forall>l \<in> set ls. LF \<notin> set l \<Longrightarrow> ls \<noteq> [] \<Longrightarrow>
     split_lines (join [LF] ls @ [LF]) = ls @ [[]]"
proof (induction ls rule: induct_list012)
  case 1
  then show ?case by simp
next
  case (2 l)
  then show ?case using split_lines_append_LF [of l "[]"] by simp
next
  case (3 l m ls)
  then show ?case using split_lines_append_LF [of l "join [LF] (m # ls) @ [LF]"] by simp
qed

lemma nonEmptyLines_written:
  assumes "\<forall>l \<in> set kept. l \<noteq> [] \<and> LF \<notin> set l"
  shows "nonEmptyLines (join [LF] kept @ (if kept \<noteq> [] then [LF] else [])) = kept"
proof (cases "kept = []")
  case True
  then show ?thesis by (simp add: nonEmptyLines_def)
next
  case False
  have "split_lines (join [LF] kept @ [LF]) = kept @ [[]]"
    using assms False by (intro split_lines_join) auto
  moreover have "filter (\<lambda>l. l \<noteq> []) kept = kept"
    using assms by (simp add: filter_id_conv)
  ultimately show ?thesis using False by (simp add: nonEmptyLines_def)
qed

lemma nonEmptyLines_pieces: "l \<in> set (nonEmptyLines s) \<Longrightarrow> l \<noteq> [] \<and> LF \<notin> set l"
  by (auto simp: nonEmptyLines_def dest: split_lines_pieces)


section \<open>The local fallback calculator: results\<close>





text \<open>
  Claim C8. At a fixed time, trimming what a trim with the same window wrote leaves the
  file as it is; and trimming a file that does not exist leaves it absent.
\<close>

theorem trimLog_idempotent:
  "trimLog rt now (trimLog rt now logFile windowMs) windowMs = trimLog rt now logFile windowMs
   \<and> trimLog rt now None windowMs = None"
proof (cases logFile)
  case None
  then show ?thesis by (simp add: trimLog_def)
next
  case (Some content)
  define kept where "kept = filter (notBefore rt (now - windowMs * 2)) (nonEmptyLines content)"
  have "\<forall>l \<in> set kept. l \<noteq> [] \<and> LF \<notin> set l"
    unfolding kept_def using nonEmptyLines_pieces by auto
  then have "nonEmptyLines (join [LF] kept @ (if kept \<noteq> [] then [LF] else [])) = kept"
    by (rule nonEmptyLines_written)
  moreover have "filter (notBefore rt (now - windowMs * 2)) kept = kept"
    unfolding kept_def by simp
  ultimately show ?thesis
    using Some by (simp add: trimLog_def Let_def kept_def)
qed

text \<open>
  A log with an old line, a line that does not parse and a recent line: the first trim
  keeps the recent line, the second changes nothing.
\<close>

theorem trimLog_idempotent_witness:
  "trimLog exampleRuntime 10000
     (Some (''1970-01-01T00:00:01.000Z'' @ [LF] @ ''oops'' @ [LF]
            @ ''1970-01-01T00:00:09.000Z'')) 2000
     = Some (''1970-01-01T00:00:09.000Z'' @ [LF])
   \<and> trimLog exampleRuntime 10000 (Some (''1970-01-01T00:00:09.000Z'' @ [LF])) 2000
     = Some (''1970-01-01T00:00:09.000Z'' @ [LF])"
proof -
  have first: "trimLog exampleRuntime 10000
     (Some (''1970-01-01T00:00:01.000Z'' @ [LF] @ ''oops'' @ [LF]
            @ ''1970-01-01T00:00:09.000Z'')) 2000
     = Some (''1970-01-01T00:00:09.000Z'' @ [LF])"
    by (simp add: trimLog_def Let_def nonEmptyLines_def notBefore_def trim_def
          isWhitespace_def LF_def exampleRuntime_def)
  show ?thesis
    using trimLog_idempotent [of exampleRuntime 10000
        "Some (''1970-01-01T00:00:01.000Z'' @ [LF] @ ''oops'' @ [LF]
               @ ''1970-01-01T00:00:09.000Z'')" 2000] first
    by simp
qed


section \<open>Colour interpolation: results\<close>









section \<open>The remote usage parser: results\<close>



lemma findByType_mem: "findByType p ls = Inr (Some l) \<Longrightarrow> l \<in> set ls"
  by (induction ls) (auto split: json.splits if_splits)

lemma rejectByType_subset: "rejectByType p ls = Inr ks \<Longrightarrow> set ks \<subseteq> set ls"
  by (induction ls arbitrary: ks) (auto split: json.splits sum.splits if_splits)





lemma example_types:
  "isFiveHour ''five_hour''" "\<not> isFiveHour ''seven_day''"
  "isSevenDay ''seven_day''" "\<not> isSevenDay ''five_hour''"
  by (simp_all add: isFiveHour_def isSevenDay_def toLowerCase_def lowerChar_def)



text \<open>
  Claim C2 fails on the code. On the example response the parser of the push endpoint
  stores 1/2, the maximum over all categories (the seven-day one), where the parser of
  the remote adapters derives 1/10, the five-hour category.
\<close>

theorem push_parser_takes_maximum:
  "map_option eu_percentage (parseExtensionUsage rt examplePayload) = Some (1 / 2)
   \<and> map_sum id highestPercent (parseUsageResponse rt examplePayload) = Inr (1 / 10)"
proof -
  have a: "map_option eu_percentage (parseExtensionUsage rt examplePayload) = Some (1 / 2)"
    by (simp add: parseExtensionUsage_def examplePayload_def objectEntries_def numberField_def
          field_def Let_def)
  have b: "map_sum id highestPercent (parseUsageResponse rt examplePayload) = Inr (1 / 10)"
    by (simp add: parseUsageResponse_def examplePayload_def parseUsageEntry_def toNumber_def
          field_def notNullish_def highestOf_def example_types Let_def)
  show ?thesis using a b ..
qed


section \<open>Percentages of stored snapshots\<close>

lemma parseUsageEntry_unit:
  assumes "objectInRange rt v" and "parseUsageEntry rt v fb = Some l"
  shows "0 \<le> ul_percentUsed l \<and> ul_percentUsed l \<le> 1"
proof -
  define raw where "raw = orElse (toNumber rt (field v ''utilization''))
           (orElse (toNumber rt (field v ''percentUsed''))
           (orElse (toNumber rt (field v ''percent_used''))
           (orElse (toNumber rt (field v ''percentage''))
                   (toNumber rt (field v ''usage_percentage'')))))"
  from assms(2) obtain r where r: "raw = Some r"
    and l: "ul_percentUsed l = (if 1 < r then r / 100 else r)"
    unfolding parseUsageEntry_def raw_def [symmetric] Let_def
    by (auto split: option.splits)
  have each: "\<And>k x. k \<in> set utilizationFields \<Longrightarrow> toNumber rt (field v k) = Some x \<Longrightarrow> 0 \<le> x \<and> x \<le> 100"
    using assms(1) by (auto simp: objectInRange_def list_all_iff split: option.splits)
  have "0 \<le> r \<and> r \<le> 100"
    using r each unfolding raw_def utilizationFields_def
    by (cases "toNumber rt (field v ''utilization'')";
        cases "toNumber rt (field v ''percentUsed'')";
        cases "toNumber rt (field v ''percent_used'')";
        cases "toNumber rt (field v ''percentage'')";
        cases "toNumber rt (field v ''usage_percentage'')") auto
  then show ?thesis using l by auto
qed

lemma arrayLimits_unit:
  "list_all (objectInRange rt) vs \<Longrightarrow> l \<in> set (arrayLimits rt vs) \<Longrightarrow>
     0 \<le> ul_percentUsed l \<and> ul_percentUsed l \<le> 1"
  by (induction vs) (auto split: if_splits option.splits dest: parseUsageEntry_unit)

lemma objectLimits_step:
  "l \<in> set (objectLimits rt obj ((key, val) # rest)) \<Longrightarrow>
     (isPlainObject val \<and> parseUsageEntry rt val (Some key) = Some l)
     \<or> parseUsageEntry rt obj None = Some l
     \<or> l \<in> set (objectLimits rt obj rest)"
  apply (simp only: objectLimits.simps Let_def)
  apply (cases "isPlainObject val"; cases "parseUsageEntry rt val (Some key)";
         cases "parseUsageEntry rt obj None";
         cases "key = ''percentUsed'' \<or> key = ''percent_used'' \<or> key = ''percentage''")
  apply (simp_all only: if_True if_False option.case set_append set_simps Un_iff append_Nil
           empty_iff insert_iff simp_thms)
  apply auto
  done

lemma objectLimits_unit:
  "objectInRange rt obj \<Longrightarrow> list_all (\<lambda>kv. objectInRange rt (snd kv)) kvs \<Longrightarrow>
     l \<in> set (objectLimits rt obj kvs) \<Longrightarrow>
     0 \<le> ul_percentUsed l \<and> ul_percentUsed l \<le> 1"
proof (induction kvs)
  case Nil
  then show ?case by simp
next
  case (Cons kv kvs)
  obtain key val where kv: "kv = (key, val)" by (cases kv)
  from Cons.prems(3) have
    "(isPlainObject val \<and> parseUsageEntry rt val (Some key) = Some l)
     \<or> parseUsageEntry rt obj None = Some l
     \<or> l \<in> set (objectLimits rt obj kvs)"
    unfolding kv by (rule objectLimits_step)
  moreover have "objectInRange rt val" using Cons.prems(2) kv by simp
  moreover have "list_all (\<lambda>kv. objectInRange rt (snd kv)) kvs" using Cons.prems(2) by simp
  ultimately show ?case
    using Cons.IH Cons.prems(1) parseUsageEntry_unit by blast
qed

lemma highestOf_unit:
  assumes "\<forall>l \<in> set ls. 0 \<le> ul_percentUsed l \<and> ul_percentUsed l \<le> 1"
  shows "0 \<le> highestOf ls \<and> highestOf ls \<le> 1"
proof (cases ls)
  case Nil
  then show ?thesis by (simp add: highestOf_def)
next
  case (Cons l ls')
  have "\<And>p. 0 \<le> p \<and> p \<le> 1 \<Longrightarrow> \<forall>q \<in> set qs. 0 \<le> q \<and> q \<le> 1 \<Longrightarrow>
          0 \<le> foldl max p qs \<and> foldl max p qs \<le> (1::real)" for qs
    by (induction qs) auto
  from this [of "ul_percentUsed l" "map ul_percentUsed ls'"] assms Cons
  show ?thesis by (simp add: highestOf_def)
qed

lemma parseUsageResponse_unit:
  assumes "payloadInRange rt raw" and "parseUsageResponse rt raw = Inr r"
  shows "0 \<le> highestPercent r \<and> highestPercent r \<le> 1"
proof -
  define lims where "lims = (case raw of
                    JArr entries \<Rightarrow> arrayLimits rt entries
                  | JObj kvs \<Rightarrow> objectLimits rt raw kvs
                  | _ \<Rightarrow> [])"
  have all: "\<forall>l \<in> set lims. 0 \<le> ul_percentUsed l \<and> ul_percentUsed l \<le> 1"
    using assms(1) unfolding lims_def payloadInRange_def
    by (cases raw) (auto dest: arrayLimits_unit objectLimits_unit)
  from assms(2) obtain ls where "highestPercent r = highestOf ls" and "set ls \<subseteq> set lims"
    unfolding parseUsageResponse_def lims_def [symmetric] Let_def
    by (auto split: sum.splits option.splits dest: findByType_mem rejectByType_subset
             elim!: orElse.elims)
  with all highestOf_unit [of ls] show ?thesis by auto
qed

lemma snapshotOf_unit:
  assumes "payloadInRange rt raw" and "parseUsageResponse rt raw = Inr r"
  shows "0 \<le> ru_percentage (snapshotOf rt r t src) \<and> ru_percentage (snapshotOf rt r t src) \<le> 1"
  using parseUsageResponse_unit [OF assms] by (simp add: snapshotOf_def)

lemma extensionEntries_range:
  "list_all (\<lambda>kv. objectInRange rt (snd kv)) kvs \<Longrightarrow> e \<in> set (extensionEntries kvs) \<Longrightarrow>
     0 \<le> ee_pct e \<and> ee_pct e \<le> 100"
proof (induction kvs)
  case Nil
  then show ?case by simp
next
  case (Cons kv kvs)
  obtain key val where kv: "kv = (key, val)" by (cases kv)
  have each: "\<And>k x. k \<in> set utilizationFields \<Longrightarrow> numberField val k = Some x \<Longrightarrow> 0 \<le> x \<and> x \<le> 100"
  proof -
    fix k x assume k: "k \<in> set utilizationFields" and n: "numberField val k = Some x"
    from n have "toNumber rt (field val k) = Some x"
      by (auto simp: numberField_def toNumber_def split: option.splits json.splits)
    with Cons.prems(1) k show "0 \<le> x \<and> x \<le> 100"
      unfolding kv by (auto simp: objectInRange_def list_all_iff split: option.splits)
  qed
  show ?case
  proof (cases "e \<in> set (extensionEntries kvs)")
    case True
    with Cons show ?thesis by simp
  next
    case False
    with Cons.prems(2) obtain r where
      r: "orElse (numberField val ''utilization'')
                     (orElse (numberField val ''percentUsed'')
                     (orElse (numberField val ''percent_used'')
                             (numberField val ''percentage''))) = Some r"
      and e: "ee_pct e = (if 1 < r then r else r * 100)"
      unfolding kv by (auto simp: Let_def split: if_splits option.splits)
    have "0 \<le> r \<and> r \<le> 100"
      using r each unfolding utilizationFields_def
      by (cases "numberField val ''utilization''";
          cases "numberField val ''percentUsed''";
          cases "numberField val ''percent_used''";
          cases "numberField val ''percentage''") auto
    with e show ?thesis by auto
  qed
qed

lemma parseExtensionUsage_unit:
  assumes "payloadInRange rt raw" and "parseExtensionUsage rt raw = Some parsed"
  shows "0 \<le> eu_percentage parsed \<and> eu_percentage parsed \<le> 1"
proof -
  from assms(2) obtain kvs e es where kvs: "objectEntries rt raw = Some kvs"
    and es: "extensionEntries kvs = e # es"
    and p: "eu_percentage parsed = foldl max (ee_pct e) (map ee_pct es) / 100"
    unfolding parseExtensionUsage_def Let_def
    by (auto split: option.splits list.splits)
  have inr: "list_all (\<lambda>kv. objectInRange rt (snd kv)) kvs"
    using assms(1) kvs unfolding payloadInRange_def objectEntries_def
    by (cases raw) (auto simp: list_all_iff dest: set_zip_rightD)
  have all: "\<forall>x \<in> set (e # es). 0 \<le> ee_pct x \<and> ee_pct x \<le> 100"
    using extensionEntries_range [OF inr] es by metis
  have "\<And>p. 0 \<le> p \<and> p \<le> 100 \<Longrightarrow> \<forall>q \<in> set qs. 0 \<le> q \<and> q \<le> 100 \<Longrightarrow>
          0 \<le> foldl max p qs \<and> foldl max p qs \<le> (100::real)" for qs
    by (induction qs) auto
  from this [of "ee_pct e" "map ee_pct es"] all
  have "0 \<le> foldl max (ee_pct e) (map ee_pct es) \<and> foldl max (ee_pct e) (map ee_pct es) \<le> 100"
    by simp
  with p show ?thesis by simp
qed


text \<open>What the handlers leave as they found it, and what they may store.\<close>

lemma remoteUsage_updateLight [simp]:
  "remoteUsage (updateLight rt config env s) = remoteUsage s"
  by (simp add: updateLight_def Let_def)

lemma adapterCalls_updateLight [simp]:
  "adapterCalls (updateLight rt config env s) = adapterCalls s"
  by (simp add: updateLight_def Let_def)

lemma running_updateLight [simp]:
  "running (updateLight rt config env s) = running s"
  by (simp add: updateLight_def Let_def)

lemma pidFile_updateLight [simp]: "pidFile (updateLight rt config env s) = pidFile s"
  by (simp add: updateLight_def Let_def)

lemma pollOAuth_cases:
  "remoteUsage (pollOAuth rt env s) = remoteUsage s
   \<or> (\<exists>token result. oauthToken env = Some token
         \<and> fetchUsageViaOAuth rt (oauthResponse env token) = Inr result
         \<and> limits result \<noteq> []
         \<and> remoteUsage (pollOAuth rt env s) = Some (snapshotOf rt result (now_oauth env) OAuth))"
  by (auto simp: pollOAuth_def Let_def split: option.splits sum.splits)

lemma pollCookie_cases:
  "remoteUsage (pollCookie rt config env s) = remoteUsage s
   \<or> (\<exists>auth result. claude config = Some auth \<and> remoteUsage s = None
         \<and> fetchUsage rt (cookieResponse env (cookie auth) (orgId auth)) = Inr result
         \<and> limits result \<noteq> []
         \<and> remoteUsage (pollCookie rt config env s) = Some (snapshotOf rt result (now_cookie env) Api))"
  by (auto simp: pollCookie_def Let_def split: option.splits sum.splits)

lemma startupCookie_cases:
  "remoteUsage (startupCookie rt config env s) = remoteUsage s
   \<or> (\<exists>auth result. claude config = Some auth
         \<and> fetchUsage rt (cookieResponse env (cookie auth) (orgId auth)) = Inr result
         \<and> limits result \<noteq> []
         \<and> remoteUsage (startupCookie rt config env s) = Some (snapshotOf rt result (now_cookie env) Api))"
  by (auto simp: startupCookie_def Let_def split: option.splits sum.splits)

lemma remoteUsage_pollTick:
  "remoteUsage (pollTick rt config env s) = remoteUsage s
   \<or> remoteUsage (pollTick rt config env s) = remoteUsage (pollCookie rt config env (pollOAuth rt env s))"
  by (simp add: pollTick_def Let_def)

lemma handlePush_cases:
  "remoteUsage (snd (handlePush rt config env body s)) = remoteUsage s
   \<or> (\<exists>data parsed. body = Some data \<and> parseExtensionUsage rt data = Some parsed
         \<and> remoteUsage (snd (handlePush rt config env body s))
             = Some \<lparr> ru_percentage = eu_percentage parsed, ru_details = eu_details parsed,
                      ru_receivedAt = now_push env, ru_source = Extension \<rparr>)"
  by (cases body; cases "parseExtensionUsage rt (the body)") (simp_all add: handlePush_def)

lemma pollTick_cases:
  "remoteUsage (pollTick rt config env s) = remoteUsage s
   \<or> (\<exists>token result. oauthToken env = Some token
         \<and> fetchUsageViaOAuth rt (oauthResponse env token) = Inr result
         \<and> limits result \<noteq> []
         \<and> remoteUsage (pollTick rt config env s)
             = Some (snapshotOf rt result (now_oauth env) OAuth))
   \<or> (\<exists>auth result. claude config = Some auth
         \<and> fetchUsage rt (cookieResponse env (cookie auth) (orgId auth)) = Inr result
         \<and> limits result \<noteq> []
         \<and> remoteUsage (pollTick rt config env s)
             = Some (snapshotOf rt result (now_cookie env) Api))"
proof -
  from remoteUsage_pollTick [of rt config env s] show ?thesis
  proof
    assume "remoteUsage (pollTick rt config env s) = remoteUsage s"
    then show ?thesis by simp
  next
    assume p: "remoteUsage (pollTick rt config env s)
                 = remoteUsage (pollCookie rt config env (pollOAuth rt env s))"
    from pollCookie_cases [of rt config env "pollOAuth rt env s"] show ?thesis
    proof
      assume c: "remoteUsage (pollCookie rt config env (pollOAuth rt env s))
                   = remoteUsage (pollOAuth rt env s)"
      from pollOAuth_cases [of rt env s] show ?thesis
        using p c by auto
    next
      assume "\<exists>auth result. claude config = Some auth \<and> remoteUsage (pollOAuth rt env s) = None
         \<and> fetchUsage rt (cookieResponse env (cookie auth) (orgId auth)) = Inr result
         \<and> limits result \<noteq> []
         \<and> remoteUsage (pollCookie rt config env (pollOAuth rt env s))
             = Some (snapshotOf rt result (now_cookie env) Api)"
      then show ?thesis using p by auto
    qed
  qed
qed

lemma fetchUsageOnStartup_cases:
  "remoteUsage (fetchUsageOnStartup rt config env s) = remoteUsage s
   \<or> (\<exists>token result. oauthToken env = Some token
         \<and> fetchUsageViaOAuth rt (oauthResponse env token) = Inr result
         \<and> limits result \<noteq> []
         \<and> remoteUsage (fetchUsageOnStartup rt config env s)
             = Some (snapshotOf rt result (now_oauth env) OAuth))
   \<or> (\<exists>auth result. claude config = Some auth
         \<and> fetchUsage rt (cookieResponse env (cookie auth) (orgId auth)) = Inr result
         \<and> limits result \<noteq> []
         \<and> remoteUsage (fetchUsageOnStartup rt config env s)
             = Some (snapshotOf rt result (now_cookie env) Api))"
proof (cases "oauthToken env")
  case None
  then show ?thesis
    using startupCookie_cases [of rt config env s] by (auto simp: fetchUsageOnStartup_def)
next
  case (Some token)
  define s' where "s' = s\<lparr>adapterCalls := adapterCalls s @ [OAuthFetch token]\<rparr>"
  have same: "remoteUsage s' = remoteUsage s" by (simp add: s'_def)
  show ?thesis
  proof (cases "fetchUsageViaOAuth rt (oauthResponse env token)")
    case (Inl e)
    then have "fetchUsageOnStartup rt config env s = startupCookie rt config env s'"
      using Some by (simp add: fetchUsageOnStartup_def Let_def s'_def)
    then show ?thesis using startupCookie_cases [of rt config env s'] same by auto
  next
    case (Inr result)
    show ?thesis
    proof (cases "limits result = []")
      case True
      then have "fetchUsageOnStartup rt config env s = startupCookie rt config env s'"
        using Some Inr by (simp add: fetchUsageOnStartup_def Let_def s'_def)
      then show ?thesis using startupCookie_cases [of rt config env s'] same by auto
    next
      case False
      then have "remoteUsage (fetchUsageOnStartup rt config env s)
                   = Some (snapshotOf rt result (now_oauth env) OAuth)"
        using Some Inr by (simp add: fetchUsageOnStartup_def Let_def)
      then show ?thesis using Some Inr False by auto
    qed
  qed
qed

lemma fetched_unit:
  assumes "\<forall>raw. response = Some raw \<longrightarrow> payloadInRange rt raw"
  shows "fetchUsageViaOAuth rt response = Inr result \<Longrightarrow>
           0 \<le> ru_percentage (snapshotOf rt result t src) \<and> ru_percentage (snapshotOf rt result t src) \<le> 1"
    and "fetchUsage rt response = Inr result \<Longrightarrow>
           0 \<le> ru_percentage (snapshotOf rt result t src) \<and> ru_percentage (snapshotOf rt result t src) \<le> 1"
  using assms snapshotOf_unit
  by (auto simp: fetchUsageViaOAuth_def fetchUsage_def split: option.splits)

lemma snapshotInUnit_same:
  "remoteUsage a = remoteUsage b \<Longrightarrow> snapshotInUnit b \<Longrightarrow> snapshotInUnit a"
  by (simp add: snapshotInUnit_def)

lemma snapshotInUnit_stored:
  "remoteUsage a = Some u \<Longrightarrow> 0 \<le> ru_percentage u \<and> ru_percentage u \<le> 1 \<Longrightarrow> snapshotInUnit a"
  by (simp add: snapshotInUnit_def)

lemma pollOAuth_unit:
  assumes "\<forall>token raw. oauthResponse env token = Some raw \<longrightarrow> payloadInRange rt raw"
    and "snapshotInUnit s"
  shows "snapshotInUnit (pollOAuth rt env s)"
proof -
  from pollOAuth_cases [of rt env s] show ?thesis
  proof
    assume "remoteUsage (pollOAuth rt env s) = remoteUsage s"
    then show ?thesis using assms(2) by (rule snapshotInUnit_same)
  next
    assume "\<exists>token result. oauthToken env = Some token
         \<and> fetchUsageViaOAuth rt (oauthResponse env token) = Inr result
         \<and> limits result \<noteq> []
         \<and> remoteUsage (pollOAuth rt env s) = Some (snapshotOf rt result (now_oauth env) OAuth)"
    then obtain token result where
      f: "fetchUsageViaOAuth rt (oauthResponse env token) = Inr result"
      and r: "remoteUsage (pollOAuth rt env s) = Some (snapshotOf rt result (now_oauth env) OAuth)"
      by blast
    have "\<forall>raw. oauthResponse env token = Some raw \<longrightarrow> payloadInRange rt raw"
      using assms(1) by blast
    from fetched_unit(1) [OF this f] r show ?thesis by (rule snapshotInUnit_stored [rotated])
  qed
qed

lemma pollCookie_unit:
  assumes "\<forall>c org raw. cookieResponse env c org = Some raw \<longrightarrow> payloadInRange rt raw"
    and "snapshotInUnit s"
  shows "snapshotInUnit (pollCookie rt config env s)"
proof -
  from pollCookie_cases [of rt config env s] show ?thesis
  proof
    assume "remoteUsage (pollCookie rt config env s) = remoteUsage s"
    then show ?thesis using assms(2) by (rule snapshotInUnit_same)
  next
    assume "\<exists>auth result. claude config = Some auth \<and> remoteUsage s = None
         \<and> fetchUsage rt (cookieResponse env (cookie auth) (orgId auth)) = Inr result
         \<and> limits result \<noteq> []
         \<and> remoteUsage (pollCookie rt config env s) = Some (snapshotOf rt result (now_cookie env) Api)"
    then obtain auth :: ClaudeAuthConfig and result where
      f: "fetchUsage rt (cookieResponse env (cookie auth) (orgId auth)) = Inr result"
      and r: "remoteUsage (pollCookie rt config env s) = Some (snapshotOf rt result (now_cookie env) Api)"
      by blast
    have "\<forall>raw. cookieResponse env (cookie auth) (orgId auth) = Some raw \<longrightarrow> payloadInRange rt raw"
      using assms(1) by blast
    from fetched_unit(2) [OF this f] r show ?thesis by (rule snapshotInUnit_stored [rotated])
  qed
qed

lemma startupCookie_unit:
  assumes "\<forall>c org raw. cookieResponse env c org = Some raw \<longrightarrow> payloadInRange rt raw"
    and "snapshotInUnit s"
  shows "snapshotInUnit (startupCookie rt config env s)"
proof -
  from startupCookie_cases [of rt config env s] show ?thesis
  proof
    assume "remoteUsage (startupCookie rt config env s) = remoteUsage s"
    then show ?thesis using assms(2) by (rule snapshotInUnit_same)
  next
    assume "\<exists>auth result. claude config = Some auth
         \<and> fetchUsage rt (cookieResponse env (cookie auth) (orgId auth)) = Inr result
         \<and> limits result \<noteq> []
         \<and> remoteUsage (startupCookie rt config env s) = Some (snapshotOf rt result (now_cookie env) Api)"
    then obtain auth :: ClaudeAuthConfig and result where
      f: "fetchUsage rt (cookieResponse env (cookie auth) (orgId auth)) = Inr result"
      and r: "remoteUsage (startupCookie rt config env s) = Some (snapshotOf rt result (now_cookie env) Api)"
      by blast
    have "\<forall>raw. cookieResponse env (cookie auth) (orgId auth) = Some raw \<longrightarrow> payloadInRange rt raw"
      using assms(1) by blast
    from fetched_unit(2) [OF this f] r show ?thesis by (rule snapshotInUnit_stored [rotated])
  qed
qed

lemma handlePush_unit:
  assumes "\<forall>raw. body = Some raw \<longrightarrow> payloadInRange rt raw" and "snapshotInUnit s"
  shows "snapshotInUnit (snd (handlePush rt config env body s))"
proof (cases body)
  case None
  then show ?thesis using assms(2) by (simp add: handlePush_def)
next
  case (Some data)
  show ?thesis
  proof (cases "parseExtensionUsage rt data")
    case None
    then show ?thesis using Some assms(2) by (simp add: handlePush_def)
  next
    case (Some parsed)
    have "payloadInRange rt data" using assms(1) \<open>body = Some data\<close> by simp
    from parseExtensionUsage_unit [OF this Some]
    show ?thesis using Some \<open>body = Some data\<close>
      by (simp add: handlePush_def snapshotInUnit_def)
  qed
qed

lemma pollTick_unit:
  assumes "\<forall>token raw. oauthResponse env token = Some raw \<longrightarrow> payloadInRange rt raw"
    and "\<forall>c org raw. cookieResponse env c org = Some raw \<longrightarrow> payloadInRange rt raw"
    and "snapshotInUnit s"
  shows "snapshotInUnit (pollTick rt config env s)"
proof -
  have "snapshotInUnit (pollCookie rt config env (pollOAuth rt env s))"
    using assms by (intro pollCookie_unit pollOAuth_unit)
  with remoteUsage_pollTick [of rt config env s] assms(3) show ?thesis
    using snapshotInUnit_same by blast
qed

lemma fetchUsageOnStartup_unit:
  assumes oauth: "\<forall>token raw. oauthResponse env token = Some raw \<longrightarrow> payloadInRange rt raw"
    and cook: "\<forall>c org raw. cookieResponse env c org = Some raw \<longrightarrow> payloadInRange rt raw"
    and "snapshotInUnit s"
  shows "snapshotInUnit (fetchUsageOnStartup rt config env s)"
proof (cases "oauthToken env")
  case None
  then show ?thesis
    using startupCookie_unit [OF cook assms(3)] by (simp add: fetchUsageOnStartup_def)
next
  case (Some token)
  have withCall: "snapshotInUnit (s\<lparr>adapterCalls := adapterCalls s @ [OAuthFetch token]\<rparr>)"
    using assms(3) by (simp add: snapshotInUnit_def)
  show ?thesis
  proof (cases "fetchUsageViaOAuth rt (oauthResponse env token)")
    case (Inl e)
    then show ?thesis
      using Some startupCookie_unit [OF cook withCall]
      by (simp add: fetchUsageOnStartup_def Let_def)
  next
    case (Inr result)
    have "\<forall>raw. oauthResponse env token = Some raw \<longrightarrow> payloadInRange rt raw"
      using oauth by blast
    from fetched_unit(1) [OF this Inr]
    have "0 \<le> ru_percentage (snapshotOf rt result (now_oauth env) OAuth)
          \<and> ru_percentage (snapshotOf rt result (now_oauth env) OAuth) \<le> 1" .
    then show ?thesis
      using Some Inr startupCookie_unit [OF cook withCall]
      by (simp add: fetchUsageOnStartup_def Let_def snapshotInUnit_def)
  qed
qed

lemma ex_payload: "payloadInRange exampleRuntime examplePayload"
  by (simp add: payloadInRange_def objectInRange_def utilizationFields_def examplePayload_def
        toNumber_def field_def)


text \<open>
  Claim C3, as amended. If every utilization in the payloads of an event (the body of a
  push, the responses to the OAuth and cookie requests) lies between 0 and 100, then
  handling the event, or fetching at startup, keeps the percentage of the stored
  snapshot between 0 and 1.
\<close>

theorem stored_snapshot_in_unit_interval:
  assumes "snapshotInUnit s"
    and oauth: "\<forall>token raw. oauthResponse env token = Some raw \<longrightarrow> payloadInRange rt raw"
    and cook: "\<forall>c org raw. cookieResponse env c org = Some raw \<longrightarrow> payloadInRange rt raw"
    and push: "\<forall>raw. ev = Push (Some raw) \<longrightarrow> payloadInRange rt raw"
  shows "snapshotInUnit (handle rt config env ev s)
       \<and> snapshotInUnit (fetchUsageOnStartup rt config env s)"
proof
  show "snapshotInUnit (handle rt config env ev s)"
  proof (cases ev)
    case Poll
    then show ?thesis using pollTick_unit [OF oauth cook assms(1)] by (simp add: handle_def)
  next
    case (Push body)
    have "\<forall>raw. body = Some raw \<longrightarrow> payloadInRange rt raw" using push Push by simp
    from handlePush_unit [OF this assms(1)] Push show ?thesis by (simp add: handle_def)
  next
    case LogChange
    then show ?thesis using assms(1) by (simp add: handle_def logChanged_def snapshotInUnit_def)
  next
    case StatusRequest
    then show ?thesis using assms(1) by (simp add: handle_def)
  qed
  show "snapshotInUnit (fetchUsageOnStartup rt config env s)"
    using oauth cook assms(1) by (rule fetchUsageOnStartup_unit)
qed

text \<open>A push of the example response stores the percentage 1/2.\<close>

theorem stored_snapshot_in_unit_interval_witness:
  "snapshotInUnit (handle exampleRuntime (exampleConfig (Some exampleAuth)) (exampleEnv 0)
                     (Push (Some examplePayload)) (exampleState None))
   \<and> map_option ru_percentage
        (remoteUsage (handle exampleRuntime (exampleConfig (Some exampleAuth)) (exampleEnv 0)
                        (Push (Some examplePayload)) (exampleState None))) = Some (1 / 2)
   \<and> snapshotInUnit (fetchUsageOnStartup exampleRuntime (exampleConfig (Some exampleAuth))
                       (exampleEnv 0) (exampleState None))"
proof -
  have s: "snapshotInUnit (exampleState None)"
    by (simp add: snapshotInUnit_def exampleState_def)
  have o: "\<forall>token raw. oauthResponse (exampleEnv 0) token = Some raw \<longrightarrow> payloadInRange exampleRuntime raw"
    by (simp add: exampleEnv_def)
  have c: "\<forall>c org raw. cookieResponse (exampleEnv 0) c org = Some raw \<longrightarrow> payloadInRange exampleRuntime raw"
    using ex_payload by (simp add: exampleEnv_def)
  have p: "\<forall>raw. Push (Some examplePayload) = Push (Some raw) \<longrightarrow> payloadInRange exampleRuntime raw"
    using ex_payload by simp
  have v: "map_option ru_percentage
        (remoteUsage (handle exampleRuntime (exampleConfig (Some exampleAuth)) (exampleEnv 0)
                        (Push (Some examplePayload)) (exampleState None))) = Some (1 / 2)"
    by (simp add: handle_def handlePush_def parseExtensionUsage_def examplePayload_def
          objectEntries_def numberField_def field_def Let_def)
  show ?thesis
    using stored_snapshot_in_unit_interval [OF s o c p, of "exampleConfig (Some exampleAuth)"] v
    by simp
qed

text \<open>
  The claim as stated, for any payload, fails at a utilization above 100: a push of
  \<open>{"five_hour": {"utilization": 150}}\<close> stores the percentage 3/2.
\<close>

theorem utilization_above_100_counterexample:
  "\<not> snapshotInUnit (handle exampleRuntime (exampleConfig None) (exampleEnv 0)
        (Push (Some (JObj [(''five_hour'', JObj [(''utilization'', JNum 150)])])))
        (exampleState None))"
  by (simp add: handle_def handlePush_def parseExtensionUsage_def snapshotInUnit_def
        objectEntries_def numberField_def field_def Let_def)


section \<open>The poll\<close>

text \<open>
  Claim C7. When the daemon runs and the stored snapshot is fresh at the time the poll
  resolves the usage (the clock does not go back between the staleness test and that
  time), the poll applies the snapshot's percentage, source and details to the light,
  calls no remote adapter, and keeps the snapshot.
\<close>

theorem fresh_snapshot_used_without_fetch:
  assumes "running s" and "remoteUsage s = Some u"
    and "now_resolve env - ru_receivedAt u < USAGE_STALE_MS"
    and "now_stale env \<le> now_resolve env"
  shows "lightUpdates (pollTick rt config env s)
           = lightUpdates s
             @ [\<lparr> lu_usage = \<lparr> res_percentage = Num (ru_percentage u),
                              res_source = ru_source u,
                              res_details = ru_details u \<rparr>,
                  lu_color = interpolateColor rt (colors_start config) (colors_end config)
                               (Num (ru_percentage u)),
                  lu_brightness = interpolateBrightness rt (Num (brightness_start config))
                                    (Num (brightness_end config)) (Num (ru_percentage u)) \<rparr>]
       \<and> adapterCalls (pollTick rt config env s) = adapterCalls s
       \<and> remoteUsage (pollTick rt config env s) = Some u"
proof -
  have notStale: "\<not> USAGE_STALE_MS < now_stale env - ru_receivedAt u"
    using assms(3,4) by simp
  have res: "getUsagePercentage rt config env s
               = \<lparr> res_percentage = Num (ru_percentage u), res_source = ru_source u,
                    res_details = ru_details u \<rparr>"
    using assms(2,3) by (simp add: getUsagePercentage_def Let_def)
  show ?thesis
    using assms(1,2) notStale res
    by (simp add: pollTick_def Let_def updateLight_def)
qed

text \<open>A pushed snapshot that is 299999 ms old, with a cookie configured.\<close>

theorem fresh_snapshot_used_without_fetch_witness:
  "map lu_usage (lightUpdates (pollTick exampleRuntime (exampleConfig (Some exampleAuth))
       (exampleEnv 299999) (exampleState (Some (exampleSnapshot Extension)))))
     = [\<lparr> res_percentage = Num (1 / 2), res_source = Extension, res_details = ''seven_day: 50%'' \<rparr>]
   \<and> adapterCalls (pollTick exampleRuntime (exampleConfig (Some exampleAuth))
       (exampleEnv 299999) (exampleState (Some (exampleSnapshot Extension)))) = []"
proof -
  have a: "running (exampleState (Some (exampleSnapshot Extension)))"
    and b: "remoteUsage (exampleState (Some (exampleSnapshot Extension)))
              = Some (exampleSnapshot Extension)"
    by (simp_all add: exampleState_def)
  have c: "now_resolve (exampleEnv 299999) - ru_receivedAt (exampleSnapshot Extension)
             < USAGE_STALE_MS"
    by (simp add: exampleEnv_def exampleSnapshot_def USAGE_STALE_MS_def)
  have d: "now_stale (exampleEnv 299999) \<le> now_resolve (exampleEnv 299999)"
    by (simp add: exampleEnv_def)
  have e: "lightUpdates (exampleState (Some (exampleSnapshot Extension))) = []"
          "adapterCalls (exampleState (Some (exampleSnapshot Extension))) = []"
    by (simp_all add: exampleState_def)
  have f: "ru_percentage (exampleSnapshot Extension) = 1 / 2"
          "ru_source (exampleSnapshot Extension) = Extension"
          "ru_details (exampleSnapshot Extension) = ''seven_day: 50%''"
    by (simp_all add: exampleSnapshot_def)
  show ?thesis
    using fresh_snapshot_used_without_fetch [OF a b c d, of exampleRuntime
            "exampleConfig (Some exampleAuth)"]
    by (simp add: e f)
qed

text \<open>
  Once a snapshot is stored, stale or not, the poll never reaches the cookie adapter.
\<close>

lemma pollCookie_skipped: "remoteUsage s \<noteq> None \<Longrightarrow> pollCookie rt config env s = s"
  by (cases "claude config") (auto simp: pollCookie_def)

lemma pollOAuth_keeps_snapshot:
  "remoteUsage s \<noteq> None \<Longrightarrow> remoteUsage (pollOAuth rt env s) \<noteq> None"
  by (simp add: pollOAuth_def Let_def split: option.splits sum.splits)

lemma cookie_adapter_needs_no_snapshot:
  "remoteUsage s \<noteq> None \<Longrightarrow>
     pollCookie rt config env (pollOAuth rt env s) = pollOAuth rt env s"
  by (simp add: pollCookie_skipped pollOAuth_keeps_snapshot)

text \<open>
  Claim C1 fails on the code. A poll finds a snapshot that is 360001 ms old, the OAuth
  request fails and a cookie is configured: the cookie adapter is not called (the test
  \<^verbatim>\<open>!remoteUsage\<close> is false for a stale snapshot), and the light gets the local
  fallback. With no snapshot stored, the same poll calls both adapters.
\<close>

theorem stale_snapshot_skips_cookie_adapter:
  "cookieConfigured (exampleConfig (Some exampleAuth))
   \<and> adapterCalls (pollTick exampleRuntime (exampleConfig (Some exampleAuth)) (exampleEnv 360001)
        (exampleState (Some (exampleSnapshot Api)))) = [OAuthFetch ''tok'']
   \<and> map (\<lambda>c. res_source (lu_usage c))
        (lightUpdates (pollTick exampleRuntime (exampleConfig (Some exampleAuth)) (exampleEnv 360001)
           (exampleState (Some (exampleSnapshot Api))))) = [Local]
   \<and> adapterCalls (pollTick exampleRuntime (exampleConfig (Some exampleAuth)) (exampleEnv 360001)
        (exampleState None)) = [OAuthFetch ''tok'', CookieFetch ''sessionKey=k'' ''org'']"
proof -
  have resp: "fetchUsage exampleRuntime (Some examplePayload)
     = Inr \<lparr> limits = [\<lparr> ul_type = JStr ''five_hour'', ul_percentUsed = 1/10, ul_resetAt = None \<rparr>,
                        \<lparr> ul_type = JStr ''seven_day'', ul_percentUsed = 1/2, ul_resetAt = None \<rparr>],
             highestPercent = 1/10 \<rparr>"
    by (simp add: fetchUsage_def parseUsageResponse_def examplePayload_def parseUsageEntry_def
          toNumber_def field_def notNullish_def highestOf_def example_types Let_def)
  have cfg: "cookieConfigured (exampleConfig (Some exampleAuth))"
    by (simp add: cookieConfigured_def exampleConfig_def exampleAuth_def)
  have stale: "adapterCalls (pollTick exampleRuntime (exampleConfig (Some exampleAuth)) (exampleEnv 360001)
        (exampleState (Some (exampleSnapshot Api)))) = [OAuthFetch ''tok'']"
    by (simp add: pollTick_def pollOAuth_def pollCookie_def exampleState_def exampleEnv_def
          exampleSnapshot_def exampleConfig_def exampleAuth_def USAGE_STALE_MS_def
          fetchUsageViaOAuth_def Let_def updateLight_def)
  have src: "map (\<lambda>c. res_source (lu_usage c))
        (lightUpdates (pollTick exampleRuntime (exampleConfig (Some exampleAuth)) (exampleEnv 360001)
           (exampleState (Some (exampleSnapshot Api))))) = [Local]"
    by (simp add: pollTick_def pollOAuth_def pollCookie_def exampleState_def exampleEnv_def
          exampleSnapshot_def exampleConfig_def exampleAuth_def USAGE_STALE_MS_def
          fetchUsageViaOAuth_def Let_def updateLight_def getUsagePercentage_def)
  have absent: "adapterCalls (pollTick exampleRuntime (exampleConfig (Some exampleAuth)) (exampleEnv 360001)
        (exampleState None)) = [OAuthFetch ''tok'', CookieFetch ''sessionKey=k'' ''org'']"
    using resp
    by (simp add: pollTick_def pollOAuth_def pollCookie_def exampleState_def exampleEnv_def
          exampleConfig_def exampleAuth_def
          fetchUsageViaOAuth_def Let_def updateLight_def)
  show ?thesis using cfg stale src absent by simp
qed


section \<open>The snapshot and the status endpoint\<close>

lemma stale_resolves_local:
  assumes "remoteUsage s = Some u" and "USAGE_STALE_MS \<le> now_resolve env - ru_receivedAt u"
  shows "res_source (getUsagePercentage rt config env s) = Local"
    and "res_percentage (getUsagePercentage rt config env s)
           = ur_percentage (calculateUsage rt (now_count env) (usageLog s)
                              (usage_windowMs config) (usage_maxPrompts config))"
  using assms by (simp_all add: getUsagePercentage_def Let_def)


text \<open>
  Claim C10. Resolving and applying (\<open>updateLight\<close>) leaves the stored snapshot as it
  is. When the snapshot is stale, the resolver returns the local result while the
  snapshot stays stored, and the status endpoint still reports a connection and the
  time of the last receipt. Handling an event replaces the snapshot only on a push that
  parses (source \<open>Extension\<close>) or on a poll whose OAuth or cookie request returned
  limits (source \<open>OAuth\<close> or \<open>Api\<close>); the fetch at startup stores a snapshot only
  in the same two cases.
\<close>

theorem resolving_never_writes_snapshot:
  "remoteUsage (updateLight rt config env s) = remoteUsage s
   \<and> (\<forall>u. remoteUsage s = Some u \<and> USAGE_STALE_MS \<le> now_resolve env - ru_receivedAt u
         \<longrightarrow> res_source (getUsagePercentage rt config env s) = Local
             \<and> res_percentage (getUsagePercentage rt config env s)
                 = ur_percentage (calculateUsage rt (now_count env) (usageLog s)
                                    (usage_windowMs config) (usage_maxPrompts config))
             \<and> remoteUsage (updateLight rt config env s) = Some u
             \<and> extensionConnected (handleStatus (updateLight rt config env s))
             \<and> lastUpdate (handleStatus (updateLight rt config env s)) = Some (ru_receivedAt u))
   \<and> (remoteUsage (handle rt config env ev s) = remoteUsage s
       \<or> (\<exists>data parsed. ev = Push (Some data) \<and> parseExtensionUsage rt data = Some parsed
             \<and> remoteUsage (handle rt config env ev s)
                 = Some \<lparr> ru_percentage = eu_percentage parsed, ru_details = eu_details parsed,
                          ru_receivedAt = now_push env, ru_source = Extension \<rparr>)
       \<or> (ev = Poll
            \<and> (\<exists>token result. oauthToken env = Some token
                  \<and> fetchUsageViaOAuth rt (oauthResponse env token) = Inr result
                  \<and> limits result \<noteq> []
                  \<and> remoteUsage (handle rt config env ev s)
                      = Some (snapshotOf rt result (now_oauth env) OAuth)))
       \<or> (ev = Poll
            \<and> (\<exists>auth result. claude config = Some auth
                  \<and> fetchUsage rt (cookieResponse env (cookie auth) (orgId auth)) = Inr result
                  \<and> limits result \<noteq> []
                  \<and> remoteUsage (handle rt config env ev s)
                      = Some (snapshotOf rt result (now_cookie env) Api))))
   \<and> (remoteUsage (fetchUsageOnStartup rt config env s) = remoteUsage s
       \<or> (\<exists>token result. oauthToken env = Some token
             \<and> fetchUsageViaOAuth rt (oauthResponse env token) = Inr result
             \<and> limits result \<noteq> []
             \<and> remoteUsage (fetchUsageOnStartup rt config env s)
                 = Some (snapshotOf rt result (now_oauth env) OAuth))
       \<or> (\<exists>auth result. claude config = Some auth
             \<and> fetchUsage rt (cookieResponse env (cookie auth) (orgId auth)) = Inr result
             \<and> limits result \<noteq> []
             \<and> remoteUsage (fetchUsageOnStartup rt config env s)
                 = Some (snapshotOf rt result (now_cookie env) Api)))"
proof (intro conjI)
  show "remoteUsage (fetchUsageOnStartup rt config env s) = remoteUsage s
       \<or> (\<exists>token result. oauthToken env = Some token
             \<and> fetchUsageViaOAuth rt (oauthResponse env token) = Inr result
             \<and> limits result \<noteq> []
             \<and> remoteUsage (fetchUsageOnStartup rt config env s)
                 = Some (snapshotOf rt result (now_oauth env) OAuth))
       \<or> (\<exists>auth result. claude config = Some auth
             \<and> fetchUsage rt (cookieResponse env (cookie auth) (orgId auth)) = Inr result
             \<and> limits result \<noteq> []
             \<and> remoteUsage (fetchUsageOnStartup rt config env s)
                 = Some (snapshotOf rt result (now_cookie env) Api))"
    by (rule fetchUsageOnStartup_cases)
  show "remoteUsage (updateLight rt config env s) = remoteUsage s" by simp
  show "\<forall>u. remoteUsage s = Some u \<and> USAGE_STALE_MS \<le> now_resolve env - ru_receivedAt u
         \<longrightarrow> res_source (getUsagePercentage rt config env s) = Local
             \<and> res_percentage (getUsagePercentage rt config env s)
                 = ur_percentage (calculateUsage rt (now_count env) (usageLog s)
                                    (usage_windowMs config) (usage_maxPrompts config))
             \<and> remoteUsage (updateLight rt config env s) = Some u
             \<and> extensionConnected (handleStatus (updateLight rt config env s))
             \<and> lastUpdate (handleStatus (updateLight rt config env s)) = Some (ru_receivedAt u)"
    using stale_resolves_local by (simp add: handleStatus_def)
  show "remoteUsage (handle rt config env ev s) = remoteUsage s
       \<or> (\<exists>data parsed. ev = Push (Some data) \<and> parseExtensionUsage rt data = Some parsed
             \<and> remoteUsage (handle rt config env ev s)
                 = Some \<lparr> ru_percentage = eu_percentage parsed, ru_details = eu_details parsed,
                          ru_receivedAt = now_push env, ru_source = Extension \<rparr>)
       \<or> (ev = Poll
            \<and> (\<exists>token result. oauthToken env = Some token
                  \<and> fetchUsageViaOAuth rt (oauthResponse env token) = Inr result
                  \<and> limits result \<noteq> []
                  \<and> remoteUsage (handle rt config env ev s)
                      = Some (snapshotOf rt result (now_oauth env) OAuth)))
       \<or> (ev = Poll
            \<and> (\<exists>auth result. claude config = Some auth
                  \<and> fetchUsage rt (cookieResponse env (cookie auth) (orgId auth)) = Inr result
                  \<and> limits result \<noteq> []
                  \<and> remoteUsage (handle rt config env ev s)
                      = Some (snapshotOf rt result (now_cookie env) Api)))"
  proof (cases ev)
    case Poll
    then show ?thesis using pollTick_cases [of rt config env s] by (simp add: handle_def)
  next
    case (Push body)
    then show ?thesis using handlePush_cases [of rt config env body s] by (auto simp: handle_def)
  next
    case LogChange
    then show ?thesis by (simp add: handle_def logChanged_def)
  next
    case StatusRequest
    then show ?thesis by (simp add: handle_def)
  qed
qed

text \<open>A pushed snapshot that is six minutes old, and no usage log.\<close>

theorem resolving_never_writes_snapshot_witness:
  "res_source (getUsagePercentage exampleRuntime (exampleConfig None) (exampleEnv 360000)
                 (exampleState (Some (exampleSnapshot Extension)))) = Local
   \<and> res_percentage (getUsagePercentage exampleRuntime (exampleConfig None) (exampleEnv 360000)
                 (exampleState (Some (exampleSnapshot Extension)))) = Num 0
   \<and> remoteUsage (updateLight exampleRuntime (exampleConfig None) (exampleEnv 360000)
                    (exampleState (Some (exampleSnapshot Extension))))
       = Some (exampleSnapshot Extension)
   \<and> handleStatus (updateLight exampleRuntime (exampleConfig None) (exampleEnv 360000)
                     (exampleState (Some (exampleSnapshot Extension))))
       = \<lparr> sb_running = True, extensionConnected = True, lastUpdate = Some 0 \<rparr>"
proof -
  have r: "remoteUsage (exampleState (Some (exampleSnapshot Extension)))
             = Some (exampleSnapshot Extension)"
    by (simp add: exampleState_def)
  have st: "USAGE_STALE_MS \<le> now_resolve (exampleEnv 360000) - ru_receivedAt (exampleSnapshot Extension)"
    by (simp add: USAGE_STALE_MS_def exampleEnv_def exampleSnapshot_def)
  have l: "usageLog (exampleState (Some (exampleSnapshot Extension))) = None"
    by (simp add: exampleState_def)
  have rcv: "ru_receivedAt (exampleSnapshot Extension) = 0"
    by (simp add: exampleSnapshot_def)
  show ?thesis
    using resolving_never_writes_snapshot [of exampleRuntime "exampleConfig None" "exampleEnv 360000"
            "exampleState (Some (exampleSnapshot Extension))" StatusRequest] r st
    by (simp add: l rcv calculateUsage_def handleStatus_def)
qed


section \<open>Starting twice\<close>

lemma startupCookie_frame [simp]:
  "pidFile (startupCookie rt config env s) = pidFile s"
  "running (startupCookie rt config env s) = running s"
  by (simp_all add: startupCookie_def Let_def split: option.splits sum.splits)

lemma fetchUsageOnStartup_frame [simp]:
  "pidFile (fetchUsageOnStartup rt config env s) = pidFile s"
  "running (fetchUsageOnStartup rt config env s) = running s"
  by (simp_all add: fetchUsageOnStartup_def Let_def split: option.splits sum.splits)

lemma readPid_4242: "readPid (exampleFreshProcess ''4242'') = Some 4242"
  by (simp add: readPid_def exampleFreshProcess_def parseInt_def trim_def isWhitespace_def
        isDigit_def digitsValue_def Let_def)


text \<open>
  Claim C9, as amended. Let the marker hold a process id. If signal 0 can be delivered
  to that process, \<open>startDaemon\<close> exits with status 1 and changes nothing. If it cannot
  (no such process, or no permission to signal it), the marker is removed and startup
  goes on: it throws what \<open>loadConfig\<close> throws, or else the daemon is started, running,
  with its own process id in the marker.
\<close>

theorem start_refuses_when_signal_delivered:
  assumes "readPid s = Some pid"
  shows "(processKill env pid = Delivered \<longrightarrow> startDaemon rt env s = (Exited 1, s))
       \<and> (processKill env pid \<noteq> Delivered \<longrightarrow>
            isDaemonRunning (processKill env) s = (False, removePid s)
            \<and> (\<forall>e. loadConfig (configFile env) = Inl e
                     \<longrightarrow> startDaemon rt env s = (Threw e, removePid s))
            \<and> (\<forall>config. loadConfig (configFile env) = Inr config
                     \<longrightarrow> fst (startDaemon rt env s) = Started config
                         \<and> running (snd (startDaemon rt env s))
                         \<and> pidFile (snd (startDaemon rt env s))
                             = Some (numToString rt (of_int (processPid env)))))"
proof (intro conjI impI)
  assume "processKill env pid = Delivered"
  then show "startDaemon rt env s = (Exited 1, s)"
    using assms by (simp add: startDaemon_def isDaemonRunning_def)
next
  assume nd: "processKill env pid \<noteq> Delivered"
  then show dead: "isDaemonRunning (processKill env) s = (False, removePid s)"
    using assms by (cases "processKill env pid") (simp_all add: isDaemonRunning_def)
  show "\<forall>e. loadConfig (configFile env) = Inl e
          \<longrightarrow> startDaemon rt env s = (Threw e, removePid s)"
    using dead by (simp add: startDaemon_def)
  show "\<forall>config. loadConfig (configFile env) = Inr config
          \<longrightarrow> fst (startDaemon rt env s) = Started config
              \<and> running (snd (startDaemon rt env s))
              \<and> pidFile (snd (startDaemon rt env s))
                  = Some (numToString rt (of_int (processPid env)))"
    using dead by (simp add: startDaemon_def Let_def)
qed

text \<open>A marker that names the running daemon 4242, and a marker that names no process.\<close>

theorem start_refuses_when_signal_delivered_witness:
  "startDaemon exampleRuntime (exampleStartEnv Delivered) (exampleFreshProcess ''4242'')
     = (Exited 1, exampleFreshProcess ''4242'')
   \<and> fst (startDaemon exampleRuntime (exampleStartEnv ESRCH) (exampleFreshProcess ''1''))
       = Started (exampleConfig None)
   \<and> pidFile (snd (startDaemon exampleRuntime (exampleStartEnv ESRCH) (exampleFreshProcess ''1'')))
       = Some ''4242''"
proof -
  have p1: "readPid (exampleFreshProcess ''1'') = Some 1"
    by (simp add: readPid_def exampleFreshProcess_def parseInt_def trim_def isWhitespace_def
          isDigit_def digitsValue_def Let_def)
  have k: "processKill (exampleStartEnv Delivered) 4242 = Delivered"
          "processKill (exampleStartEnv ESRCH) 1 \<noteq> Delivered"
    by (simp_all add: exampleStartEnv_def)
  have c: "loadConfig (configFile (exampleStartEnv ESRCH)) = Inr (exampleConfig None)"
    by (simp add: exampleStartEnv_def loadConfig_def)
  have n: "numToString exampleRuntime (of_int (processPid (exampleStartEnv ESRCH))) = ''4242''"
    by (simp add: exampleStartEnv_def exampleRuntime_def)
  show ?thesis
    using start_refuses_when_signal_delivered [OF readPid_4242, of "exampleStartEnv Delivered" exampleRuntime]
          start_refuses_when_signal_delivered [OF p1, of "exampleStartEnv ESRCH" exampleRuntime]
          k c n
    by simp
qed

text \<open>
  The claim as stated, for every live process, fails when the marker names a live
  process that this user may not signal (process 1, say): \<^verbatim>\<open>process.kill\<close> throws
  \<^verbatim>\<open>EPERM\<close>, and the daemon starts and overwrites the marker.
\<close>

theorem start_live_unsignalable_counterexample:
  "readPid (exampleFreshProcess ''1'') = Some 1
   \<and> processKill (exampleStartEnv EPERM) 1 = EPERM
   \<and> fst (startDaemon exampleRuntime (exampleStartEnv EPERM) (exampleFreshProcess ''1''))
       = Started (exampleConfig None)
   \<and> pidFile (snd (startDaemon exampleRuntime (exampleStartEnv EPERM) (exampleFreshProcess ''1'')))
       = Some ''4242''"
  by (simp add: readPid_def exampleFreshProcess_def parseInt_def trim_def isWhitespace_def
        isDigit_def digitsValue_def Let_def exampleStartEnv_def startDaemon_def
        isDaemonRunning_def removePid_def loadConfig_def exampleRuntime_def
        fetchUsageOnStartup_def startupCookie_def exampleConfig_def exampleEnv_def
        fetchUsageViaOAuth_def updateLight_def)

end
